theory Spec2Isabelle
  imports Complex_Main
begin

section \<open>The GPU driver library (pynvml) as the code sees it\<close>

text \<open>
  \<^verbatim>\<open>gpu_monitor.py\<close> talks to the NVIDIA driver through the functions of \<open>pynvml\<close>. Each
  of them either answers or raises \<open>pynvml.NVMLError\<close>. A value of type \<open>nvml\<close> is the
  driver as one method call finds it: the answer of every query the code makes. Python
  integers are unbounded, hence \<open>int\<close>.
\<close>

datatype nvml_error = NVMLError string

fun text_of :: "nvml_error \<Rightarrow> string" where
  "text_of (NVMLError s) = s"

type_synonym handle = nat

record proc_info =
  pid :: int
  usedGpuMemory :: int

record mem_info =
  mem_total :: int
  mem_used :: int

record util_rates =
  gpu :: int

record nvml =
  nvmlInit :: "nvml_error option"
  nvmlDeviceGetCount :: "nvml_error + nat"
  nvmlDeviceGetHandleByIndex :: "nat \<Rightarrow> nvml_error + handle"
  nvmlDeviceGetComputeRunningProcesses :: "handle \<Rightarrow> nvml_error + proc_info list"
  nvmlDeviceGetName :: "handle \<Rightarrow> nvml_error + string"
  nvmlDeviceGetMemoryInfo :: "handle \<Rightarrow> nvml_error + mem_info"
  nvmlDeviceGetUtilizationRates :: "handle \<Rightarrow> nvml_error + util_rates"
  nvmlDeviceGetUUID :: "handle \<Rightarrow> nvml_error + string"
  nvmlShutdown :: "nvml_error option"

text \<open>What the outside world observes of the GPU monitor: its driver calls and log lines.\<close>

datatype nvml_call =
    NvmlInit
  | DeviceGetCount
  | DeviceGetHandleByIndex nat
  | DeviceGetComputeRunningProcesses handle
  | DeviceGetName handle
  | DeviceGetMemoryInfo handle
  | DeviceGetUtilizationRates handle
  | DeviceGetUUID handle
  | NvmlShutdown

datatype log_level = INFO | WARNING | ERROR

datatype gpu_event = Call nvml_call | Log log_level string

text \<open>
  The body of a \<^verbatim>\<open>try\<close> block: the value it reaches or the \<open>NVMLError\<close> that left it,
  with the driver calls made up to that point (a call that raises has been made).
\<close>

type_synonym 'a nvml_try = "(nvml_error + 'a) \<times> nvml_call list"

definition query :: "nvml_call \<Rightarrow> nvml_error + 'a \<Rightarrow> ('a \<Rightarrow> 'b nvml_try) \<Rightarrow> 'b nvml_try" where
  "query c answer k =
     (case answer of
        Inl e \<Rightarrow> (Inl e, [c])
      | Inr x \<Rightarrow> (case k x of (r, cs) \<Rightarrow> (r, c # cs)))"

text \<open>\<^verbatim>\<open>for i in xs: body\<close> inside a \<^verbatim>\<open>try\<close>: the first error leaves the loop.\<close>

fun for_each :: "('i \<Rightarrow> 's \<Rightarrow> 's nvml_try) \<Rightarrow> 'i list \<Rightarrow> 's \<Rightarrow> 's nvml_try" where
  "for_each body [] s = (Inr s, [])"
| "for_each body (i # is) s =
     (case body i s of
        (Inl e, cs) \<Rightarrow> (Inl e, cs)
      | (Inr s', cs) \<Rightarrow> (case for_each body is s' of (r, cs') \<Rightarrow> (r, cs @ cs')))"

text \<open>\<^verbatim>\<open>d.get(k, default)\<close>\<close>

definition dict_get :: "('k \<rightharpoonup> 'v) \<Rightarrow> 'k \<Rightarrow> 'v \<Rightarrow> 'v" where
  "dict_get m k dflt = (case m k of None \<Rightarrow> dflt | Some v \<Rightarrow> v)"

section \<open>GPUMonitor (gpu\_monitor.py)\<close>

record gpu_info =
  name :: string
  uuid :: string
  total_memory :: int
  used_memory :: int
  memory_percent :: real
  gpu_utilization :: int

text \<open>
  The two attributes of the object, and \<open>trace\<close>: the driver calls made and the log lines
  written through this object so far, oldest first.
\<close>

record gpu_monitor =
  is_available :: bool
  pid_gpu_memory_map :: "int \<rightharpoonup> int"
  trace :: "gpu_event list"

text \<open>
  \<^verbatim>\<open>GPUMonitor.__init__\<close>. The first argument is the module constant
  \<^verbatim>\<open>PYNXML_AVAILABLE\<close> (whether \<^verbatim>\<open>import pynvml\<close> succeeded).
\<close>

definition gpu_monitor_init :: "bool \<Rightarrow> nvml \<Rightarrow> gpu_monitor" where
  "gpu_monitor_init PYNXML_AVAILABLE d =
     (if PYNXML_AVAILABLE then
        (case nvmlInit d of
           None \<Rightarrow>
             \<lparr>is_available = True, pid_gpu_memory_map = Map.empty,
              trace = [Call NvmlInit,
                Log INFO ''nvidia-ml-py (pynvml) initialized successfully. GPU monitoring enabled.'']\<rparr>
         | Some e \<Rightarrow>
             \<lparr>is_available = False, pid_gpu_memory_map = Map.empty,
              trace = [Call NvmlInit,
                Log WARNING (''Failed to initialize pynvml. GPU monitoring disabled. Error: '' @ text_of e)]\<rparr>)
      else
        \<lparr>is_available = False, pid_gpu_memory_map = Map.empty,
         trace = [Log INFO ''nvidia-ml-py library not found. GPU monitoring is disabled.'']\<rparr>)"

text \<open>The inner loop of \<^verbatim>\<open>_map_pids_to_gpus\<close>: \<^verbatim>\<open>for p in procs: map[p.pid] = map.get(p.pid, 0) + p.usedGpuMemory\<close>.\<close>

fun add_procs :: "proc_info list \<Rightarrow> (int \<rightharpoonup> int) \<Rightarrow> (int \<rightharpoonup> int)" where
  "add_procs [] m = m"
| "add_procs (p # ps) m = add_procs ps (m(pid p \<mapsto> dict_get m (pid p) 0 + usedGpuMemory p))"

text \<open>One round of the outer loop, for device index \<open>i\<close>.\<close>

definition map_device :: "nvml \<Rightarrow> nat \<Rightarrow> (int \<rightharpoonup> int) \<Rightarrow> (int \<rightharpoonup> int) nvml_try" where
  "map_device d i m =
     query (DeviceGetHandleByIndex i) (nvmlDeviceGetHandleByIndex d i) (\<lambda>handle.
     query (DeviceGetComputeRunningProcesses handle) (nvmlDeviceGetComputeRunningProcesses d handle) (\<lambda>procs.
     (Inr (add_procs procs m), [])))"

text \<open>The \<^verbatim>\<open>try\<close> body of \<^verbatim>\<open>_map_pids_to_gpus\<close>, started on the freshly reset map.\<close>

definition map_pids_try :: "nvml \<Rightarrow> (int \<rightharpoonup> int) nvml_try" where
  "map_pids_try d =
     query DeviceGetCount (nvmlDeviceGetCount d) (\<lambda>device_count.
     for_each (map_device d) [0..<device_count] Map.empty)"

text \<open>\<^verbatim>\<open>GPUMonitor._map_pids_to_gpus\<close>\<close>

definition map_pids_to_gpus :: "nvml \<Rightarrow> gpu_monitor \<Rightarrow> gpu_monitor" where
  "map_pids_to_gpus d g =
     (if \<not> is_available g then g
      else
        (case map_pids_try d of
           (Inr m, cs) \<Rightarrow> g\<lparr>pid_gpu_memory_map := m, trace := trace g @ map Call cs\<rparr>
         | (Inl e, cs) \<Rightarrow>
             g\<lparr>pid_gpu_memory_map := Map.empty,
               trace := trace g @ map Call cs
                 @ [Log ERROR (''Error fetching GPU process info: '' @ text_of e)]\<rparr>))"

text \<open>One round of the loop of \<^verbatim>\<open>get_gpu_info\<close>; the UUID is queried while the dict is built.\<close>

definition gpu_info_device :: "nvml \<Rightarrow> nat \<Rightarrow> gpu_info list \<Rightarrow> gpu_info list nvml_try" where
  "gpu_info_device d i gpu_info_list =
     query (DeviceGetHandleByIndex i) (nvmlDeviceGetHandleByIndex d i) (\<lambda>handle.
     query (DeviceGetName handle) (nvmlDeviceGetName d handle) (\<lambda>gpu_name.
     query (DeviceGetMemoryInfo handle) (nvmlDeviceGetMemoryInfo d handle) (\<lambda>mem_info.
     query (DeviceGetUtilizationRates handle) (nvmlDeviceGetUtilizationRates d handle) (\<lambda>util_rates.
     query (DeviceGetUUID handle) (nvmlDeviceGetUUID d handle) (\<lambda>u.
     (Inr (gpu_info_list @
        [\<lparr>name = gpu_name, uuid = u,
          total_memory = mem_total mem_info, used_memory = mem_used mem_info,
          memory_percent =
            (if mem_total mem_info > 0
             then real_of_int (mem_used mem_info) / real_of_int (mem_total mem_info) * 100
             else 0),
          gpu_utilization = gpu util_rates\<rparr>]), []))))))"

definition gpu_info_try :: "nvml \<Rightarrow> gpu_info list nvml_try" where
  "gpu_info_try d =
     query DeviceGetCount (nvmlDeviceGetCount d) (\<lambda>device_count.
     for_each (gpu_info_device d) [0..<device_count] [])"

text \<open>\<^verbatim>\<open>GPUMonitor.get_gpu_info\<close>: the list returned and the object afterwards.\<close>

definition get_gpu_info :: "nvml \<Rightarrow> gpu_monitor \<Rightarrow> gpu_info list \<times> gpu_monitor" where
  "get_gpu_info d g =
     (if \<not> is_available g then ([], g)
      else
        (case gpu_info_try d of
           (Inr gpu_info_list, cs) \<Rightarrow> (gpu_info_list, g\<lparr>trace := trace g @ map Call cs\<rparr>)
         | (Inl e, cs) \<Rightarrow>
             ([], g\<lparr>is_available := False,
                    trace := trace g @ map Call cs
                      @ [Log ERROR (''Could not retrieve GPU info during update. Disabling monitoring. Error: ''
                           @ text_of e)]\<rparr>)))"

text \<open>\<^verbatim>\<open>GPUMonitor.get_process_gpu_memory\<close>\<close>

definition get_process_gpu_memory :: "gpu_monitor \<Rightarrow> int \<Rightarrow> int" where
  "get_process_gpu_memory g p = dict_get (pid_gpu_memory_map g) p 0"

text \<open>\<^verbatim>\<open>GPUMonitor.shutdown\<close>\<close>

definition shutdown :: "nvml \<Rightarrow> gpu_monitor \<Rightarrow> gpu_monitor" where
  "shutdown d g =
     (if is_available g then
        (case nvmlShutdown d of
           None \<Rightarrow> g\<lparr>trace := trace g @ [Call NvmlShutdown, Log INFO ''pynvml shut down successfully.'']\<rparr>
         | Some e \<Rightarrow>
             g\<lparr>trace := trace g
                 @ [Call NvmlShutdown, Log ERROR (''Error during pynvml shutdown: '' @ text_of e)]\<rparr>)
      else g)"

text \<open>
  A run of the object after construction: any sequence of its four methods, each finding
  the driver in a state of its own, with what each call returned.
\<close>

datatype gpu_op =
    MapPidsToGpus nvml
  | GetGpuInfo nvml
  | GetProcessGpuMemory int
  | Shutdown nvml

datatype gpu_result = Nothing | Devices "gpu_info list" | Memory int

fun gpu_step :: "gpu_op \<Rightarrow> gpu_monitor \<Rightarrow> gpu_result \<times> gpu_monitor" where
  "gpu_step (MapPidsToGpus d) g = (Nothing, map_pids_to_gpus d g)"
| "gpu_step (GetGpuInfo d) g = (case get_gpu_info d g of (l, g') \<Rightarrow> (Devices l, g'))"
| "gpu_step (GetProcessGpuMemory p) g = (Memory (get_process_gpu_memory g p), g)"
| "gpu_step (Shutdown d) g = (Nothing, shutdown d g)"

fun gpu_run :: "gpu_op list \<Rightarrow> gpu_monitor \<Rightarrow> gpu_result list \<times> gpu_monitor" where
  "gpu_run [] g = ([], g)"
| "gpu_run (op # ops) g =
     (case gpu_step op g of (r, g') \<Rightarrow> (case gpu_run ops g' of (rs, g'') \<Rightarrow> (r # rs, g'')))"

section \<open>SystemMonitor (monitor.py)\<close>

text \<open>
  The exceptions of Python itself that the code of \<^verbatim>\<open>monitor.py\<close> can meet: a list read
  out of range, a division by zero (\<^verbatim>\<open>/\<close> raises on a zero divisor, for floats too) and
  an attribute read on \<^verbatim>\<open>None\<close>.
  The counters and clock readings are Python floats; they are modelled as real numbers.
\<close>

datatype py_error = IndexError | ZeroDivisionError | AttributeError

definition py_truediv :: "real \<Rightarrow> real \<Rightarrow> py_error + real" where
  "py_truediv a b = (if b = 0 then Inl ZeroDivisionError else Inr (a / b))"

text \<open>\<^verbatim>\<open>xs[i]\<close> for an index \<open>i \<ge> 0\<close>\<close>

definition py_index :: "'a list \<Rightarrow> nat \<Rightarrow> py_error + 'a" where
  "py_index xs i = (if i < length xs then Inr (xs ! i) else Inl IndexError)"

subsection \<open>What psutil and the clock answer\<close>

record cpu_times =
  user :: real
  system :: real
  idle :: real

record virtual_memory =
  vm_total :: int
  vm_used :: int
  vm_percent :: real

datatype psutil_error = NoSuchProcess | AccessDenied | ZombieProcess

text \<open>
  The dict \<^verbatim>\<open>proc.info\<close> that \<^verbatim>\<open>psutil.process_iter(attrs)\<close> prepares for a process: its
  pid, and for each other field the value read, or \<^verbatim>\<open>None\<close> when psutil was denied the
  field or the process is a zombie (psutil catches its own exception there and stores
  \<^verbatim>\<open>None\<close>). Of \<^verbatim>\<open>memory_info\<close> the code reads only \<^verbatim>\<open>rss\<close>.
\<close>

record pinfo =
  pinfo_pid :: int
  pinfo_name :: "string option"
  pinfo_username :: "string option"
  pinfo_cpu_percent :: "real option"
  pinfo_memory_info :: "int option"
  pinfo_cmdline :: "string list option"

text \<open>
  The host during one tick: the answers of \<^verbatim>\<open>psutil.cpu_times(percpu=True)\<close>,
  \<^verbatim>\<open>psutil.virtual_memory()\<close>, \<^verbatim>\<open>psutil.process_iter(...)\<close> and \<^verbatim>\<open>psutil.cpu_count\<close>.
  Each element of \<open>process_iter\<close> is the \<^verbatim>\<open>info\<close> of one process, or one of the three
  psutil exceptions raised inside the \<^verbatim>\<open>try\<close> block for it. The \<^verbatim>\<open>except\<close> clause of the
  code is there for the latter; \<^verbatim>\<open>process_iter(attrs)\<close> itself hands over a process it
  could not read as an \<^verbatim>\<open>info\<close> with \<^verbatim>\<open>None\<close> fields.
\<close>

record host =
  cpu_times_now :: "cpu_times list"
  virtual_memory_now :: virtual_memory
  process_iter :: "(psutil_error + pinfo) list"
  cpu_count_physical :: "nat option"
  cpu_count_logical :: "nat option"

subsection \<open>The snapshot\<close>

record cpu_data =
  cpu_total_percent :: real
  cpu_per_cpu_percent :: "real list"
  cpu_physical_cores :: "nat option"
  cpu_logical_cores :: "nat option"

record process_data =
  proc_pid :: int
  proc_name :: "string option"
  proc_cpu_percent :: "real option"
  proc_memory_bytes :: int
  proc_memory_percent :: real
  proc_gpu_memory_bytes :: int
  proc_command :: string

record snapshot =
  snap_ram :: virtual_memory
  snap_cpu :: cpu_data
  snap_gpu :: "gpu_info list"
  snap_processes :: "process_data list"

text \<open>What the monitor does to the outside: signals emitted, sleeps and log lines, oldest first.\<close>

datatype effect = Emit snapshot | Sleep real | LogInfo string

fun emitted :: "effect list \<Rightarrow> snapshot list" where
  "emitted [] = []"
| "emitted (Emit s # os) = s # emitted os"
| "emitted (_ # os) = emitted os"

fun sleeps :: "effect list \<Rightarrow> real list" where
  "sleeps [] = []"
| "sleeps (Sleep t # os) = t # sleeps os"
| "sleeps (_ # os) = sleeps os"

subsection \<open>The object\<close>

record system_monitor =
  refresh_interval :: real
  is_running :: bool
  gpu_monitor :: gpu_monitor
  last_cpu_times :: "cpu_times list"
  out :: "effect list"

text \<open>
  \<^verbatim>\<open>SystemMonitor.__init__\<close>, given the refresh interval (1.5 by default), what the
  construction of the \<open>GPUMonitor\<close> finds and the first reading of the CPU counters.
\<close>

definition system_monitor_init :: "real \<Rightarrow> bool \<Rightarrow> nvml \<Rightarrow> cpu_times list \<Rightarrow> system_monitor" where
  "system_monitor_init interval PYNXML_AVAILABLE d cpu_times_at_start =
     \<lparr>refresh_interval = interval, is_running = True,
      gpu_monitor = gpu_monitor_init PYNXML_AVAILABLE d,
      last_cpu_times = cpu_times_at_start, out = []\<rparr>"

text \<open>\<^verbatim>\<open>SystemMonitor.stop\<close>; the mutex around the assignment has no counterpart here.\<close>

definition stop :: "system_monitor \<Rightarrow> system_monitor" where
  "stop m = m\<lparr>is_running := False\<rparr>"

subsection \<open>CPU percentages\<close>

definition delta_user :: "cpu_times \<Rightarrow> cpu_times \<Rightarrow> real" where
  "delta_user current last_t = user current - user last_t"

definition delta_system :: "cpu_times \<Rightarrow> cpu_times \<Rightarrow> real" where
  "delta_system current last_t = system current - system last_t"

definition delta_idle :: "cpu_times \<Rightarrow> cpu_times \<Rightarrow> real" where
  "delta_idle current last_t = idle current - idle last_t"

definition delta_all :: "cpu_times \<Rightarrow> cpu_times \<Rightarrow> real" where
  "delta_all current last_t = delta_user current last_t + delta_system current last_t + delta_idle current last_t"

text \<open>\<^verbatim>\<open>0.0 if all == 0 else busy / all * 100\<close>, as both the loop and the total compute it.\<close>

definition percent_of :: "real \<Rightarrow> real \<Rightarrow> py_error + real" where
  "percent_of busy all =
     (if all = 0 then Inr 0
      else (case py_truediv busy all of Inl e \<Rightarrow> Inl e | Inr q \<Rightarrow> Inr (q * 100)))"

text \<open>The local variables the loop of \<^verbatim>\<open>_calculate_cpu_percent\<close> updates.\<close>

record cpu_acc =
  per_cpu_percent :: "real list"
  total_delta_user :: real
  total_delta_system :: real
  total_delta_idle :: real
  total_delta_all :: real

text \<open>The loop body for core \<open>i\<close>.\<close>

definition cpu_core :: "cpu_times list \<Rightarrow> cpu_times list \<Rightarrow> nat \<Rightarrow> cpu_acc \<Rightarrow> py_error + cpu_acc" where
  "cpu_core current_times last_times i acc =
     (case py_index current_times i of
        Inl e \<Rightarrow> Inl e
      | Inr current \<Rightarrow>
     (case py_index last_times i of
        Inl e \<Rightarrow> Inl e
      | Inr last_t \<Rightarrow>
     (case percent_of (delta_user current last_t + delta_system current last_t) (delta_all current last_t) of
        Inl e \<Rightarrow> Inl e
      | Inr percent \<Rightarrow>
          Inr \<lparr>per_cpu_percent = per_cpu_percent acc @ [max 0 (min 100 percent)],
               total_delta_user = total_delta_user acc + delta_user current last_t,
               total_delta_system = total_delta_system acc + delta_system current last_t,
               total_delta_idle = total_delta_idle acc + delta_idle current last_t,
               total_delta_all = total_delta_all acc + delta_all current last_t\<rparr>)))"

fun cpu_loop :: "cpu_times list \<Rightarrow> cpu_times list \<Rightarrow> nat list \<Rightarrow> cpu_acc \<Rightarrow> py_error + cpu_acc" where
  "cpu_loop current_times last_times [] acc = Inr acc"
| "cpu_loop current_times last_times (i # is) acc =
     (case cpu_core current_times last_times i acc of
        Inl e \<Rightarrow> Inl e
      | Inr acc' \<Rightarrow> cpu_loop current_times last_times is acc')"

text \<open>
  The computation of \<^verbatim>\<open>_calculate_cpu_percent\<close> on the current and the previous reading:
  the pair \<open>(total, per core)\<close> it returns.
\<close>

definition cpu_percent :: "cpu_times list \<Rightarrow> cpu_times list \<Rightarrow> py_error + (real \<times> real list)" where
  "cpu_percent current_times last_times =
     (case cpu_loop current_times last_times [0..<length current_times]
             \<lparr>per_cpu_percent = [], total_delta_user = 0, total_delta_system = 0,
              total_delta_idle = 0, total_delta_all = 0\<rparr> of
        Inl e \<Rightarrow> Inl e
      | Inr acc \<Rightarrow>
     (case percent_of (total_delta_user acc + total_delta_system acc) (total_delta_all acc) of
        Inl e \<Rightarrow> Inl e
      | Inr total_percent \<Rightarrow> Inr (max 0 (min 100 total_percent), per_cpu_percent acc)))"

text \<open>
  \<^verbatim>\<open>SystemMonitor._calculate_cpu_percent\<close>: the stored reading is replaced before the
  computation starts.
\<close>

definition calculate_cpu_percent ::
  "cpu_times list \<Rightarrow> system_monitor \<Rightarrow> py_error + ((real \<times> real list) \<times> system_monitor)" where
  "calculate_cpu_percent current_times m =
     (case cpu_percent current_times (last_cpu_times m) of
        Inl e \<Rightarrow> Inl e
      | Inr r \<Rightarrow> Inr (r, m\<lparr>last_cpu_times := current_times\<rparr>))"

subsection \<open>Collecting a snapshot\<close>

text \<open>\<^verbatim>\<open>' '.join(words)\<close>\<close>

fun join_spaces :: "string list \<Rightarrow> string" where
  "join_spaces [] = []"
| "join_spaces [w] = w"
| "join_spaces (w # ws) = w @ '' '' @ join_spaces ws"

text \<open>
  \<^verbatim>\<open>pinfo['memory_info'].rss\<close>: when psutil stored \<^verbatim>\<open>None\<close> for \<^verbatim>\<open>memory_info\<close>, the
  attribute read raises \<^verbatim>\<open>AttributeError\<close>.
\<close>

definition rss_of :: "pinfo \<Rightarrow> py_error + int" where
  "rss_of pinfo =
     (case pinfo_memory_info pinfo of None \<Rightarrow> Inl AttributeError | Some rss \<Rightarrow> Inr rss)"

text \<open>
  \<^verbatim>\<open>ram.total and (pinfo['memory_info'].rss / ram.total * 100) or 0\<close>: \<^verbatim>\<open>a and b or c\<close>
  is \<open>c\<close> when \<open>a\<close> is zero, without evaluating \<open>b\<close>, and otherwise \<open>b\<close> unless \<open>b\<close> is
  zero, when it is \<open>c\<close> again.
\<close>

definition memory_percent_of :: "int \<Rightarrow> pinfo \<Rightarrow> py_error + real" where
  "memory_percent_of ram_total pinfo =
     (if ram_total = 0 then Inr 0
      else
        (case rss_of pinfo of
           Inl e \<Rightarrow> Inl e
         | Inr rss \<Rightarrow>
        (case py_truediv (real_of_int rss) (real_of_int ram_total) of
           Inl e \<Rightarrow> Inl e
         | Inr q \<Rightarrow> (if q * 100 = 0 then Inr 0 else Inr (q * 100)))))"

text \<open>
  The dict appended for one process. \<open>cmd\<close> is computed first; the values of the dict
  are then evaluated in the order written, so \<^verbatim>\<open>"memory_bytes"\<close> reads
  \<^verbatim>\<open>pinfo['memory_info'].rss\<close> before \<^verbatim>\<open>"memory_percent"\<close> is computed.
\<close>

definition process_record :: "virtual_memory \<Rightarrow> gpu_monitor \<Rightarrow> pinfo \<Rightarrow> py_error + process_data" where
  "process_record ram g pinfo =
     (let cmd = (case pinfo_cmdline pinfo of
                   None \<Rightarrow> []
                 | Some words \<Rightarrow> (if words \<noteq> [] then join_spaces words else []))
      in case rss_of pinfo of
           Inl e \<Rightarrow> Inl e
         | Inr memory_bytes \<Rightarrow>
        (case memory_percent_of (vm_total ram) pinfo of
           Inl e \<Rightarrow> Inl e
         | Inr mp \<Rightarrow>
             Inr \<lparr>proc_pid = pinfo_pid pinfo, proc_name = pinfo_name pinfo,
                  proc_cpu_percent = pinfo_cpu_percent pinfo,
                  proc_memory_bytes = memory_bytes,
                  proc_memory_percent = mp,
                  proc_gpu_memory_bytes = get_process_gpu_memory g (pinfo_pid pinfo),
                  proc_command = cmd\<rparr>))"

text \<open>
  The loop over \<^verbatim>\<open>psutil.process_iter\<close>. The \<^verbatim>\<open>except\<close> clause passes over a process for
  which one of the three psutil exceptions was raised; any other exception, such as the
  \<^verbatim>\<open>AttributeError\<close> of a \<^verbatim>\<open>None\<close> field, leaves the loop and the method.
\<close>

fun collect_processes ::
  "virtual_memory \<Rightarrow> gpu_monitor \<Rightarrow> (psutil_error + pinfo) list \<Rightarrow> process_data list
     \<Rightarrow> py_error + process_data list" where
  "collect_processes ram g [] processes_data = Inr processes_data"
| "collect_processes ram g (Inl _ # procs) processes_data =
     collect_processes ram g procs processes_data"
| "collect_processes ram g (Inr pinfo # procs) processes_data =
     (case process_record ram g pinfo of
        Inl e \<Rightarrow> Inl e
      | Inr r \<Rightarrow> collect_processes ram g procs (processes_data @ [r]))"

text \<open>
  \<^verbatim>\<open>SystemMonitor._collect_data\<close>, on the host of this tick and the driver as the device
  listing finds it.
\<close>

definition collect_data ::
  "host \<Rightarrow> nvml \<Rightarrow> system_monitor \<Rightarrow> py_error + (snapshot \<times> system_monitor)" where
  "collect_data h d m =
     (let ram = virtual_memory_now h
      in case calculate_cpu_percent (cpu_times_now h) m of
           Inl e \<Rightarrow> Inl e
         | Inr ((total_cpu_percent, per_cpu), m1) \<Rightarrow>
        (case collect_processes ram (gpu_monitor m1) (process_iter h) [] of
           Inl e \<Rightarrow> Inl e
         | Inr processes_data \<Rightarrow>
        (case get_gpu_info d (gpu_monitor m1) of
           (gpus, g') \<Rightarrow>
             Inr (\<lparr>snap_ram = \<lparr>vm_total = vm_total ram, vm_used = vm_used ram, vm_percent = vm_percent ram\<rparr>,
                   snap_cpu = \<lparr>cpu_total_percent = total_cpu_percent,
                              cpu_per_cpu_percent = per_cpu,
                              cpu_physical_cores = cpu_count_physical h,
                              cpu_logical_cores = cpu_count_logical h\<rparr>,
                   snap_gpu = gpus,
                   snap_processes = processes_data\<rparr>,
                  m1\<lparr>gpu_monitor := g'\<rparr>))))"

subsection \<open>The monitoring loop\<close>

text \<open>
  One round of the loop of \<^verbatim>\<open>run\<close> meets: the two readings of \<^verbatim>\<open>time.time()\<close>, the
  driver at the map refresh and at the device listing, the host, and what the other thread
  does meanwhile. \<^verbatim>\<open>run\<close> reads \<^verbatim>\<open>_is_running\<close> at two places, the \<^verbatim>\<open>while\<close> test and
  the test before \<^verbatim>\<open>emit\<close>, so a call of \<^verbatim>\<open>stop()\<close> from the other thread falls either
  between the \<^verbatim>\<open>while\<close> test and the test before \<^verbatim>\<open>emit\<close> (\<open>stop_in_collection\<close>), or
  between that test and the next \<^verbatim>\<open>while\<close> test (\<open>stop_in_sleep\<close>).
\<close>

record tick_env =
  start_time :: real
  end_time :: real
  driver_at_refresh :: nvml
  driver_at_listing :: nvml
  host_now :: host
  stop_in_collection :: bool
  stop_in_sleep :: bool

definition tick :: "tick_env \<Rightarrow> system_monitor \<Rightarrow> py_error + system_monitor" where
  "tick e m =
     (let m1 = m\<lparr>gpu_monitor := map_pids_to_gpus (driver_at_refresh e) (gpu_monitor m)\<rparr>
      in case collect_data (host_now e) (driver_at_listing e) m1 of
           Inl err \<Rightarrow> Inl err
         | Inr (system_data, m2) \<Rightarrow>
             (let m3 = (if stop_in_collection e then stop m2 else m2);
                  m4 = (if is_running m3 then m3\<lparr>out := out m3 @ [Emit system_data]\<rparr> else m3);
                  elapsed_time = end_time e - start_time e;
                  sleep_time = refresh_interval m4 - elapsed_time;
                  m5 = (if sleep_time > 0 then m4\<lparr>out := out m4 @ [Sleep sleep_time]\<rparr> else m4)
              in Inr (if stop_in_sleep e then stop m5 else m5)))"

text \<open>
  The \<^verbatim>\<open>while self._is_running\<close> loop over the rounds the environment provides. The loop
  ends when the flag is found cleared, or with the exception that left it; \<open>None\<close> says
  that it is still running when the rounds provided are used up.
\<close>

fun run_loop :: "tick_env list \<Rightarrow> system_monitor \<Rightarrow> (py_error + system_monitor) option" where
  "run_loop [] m = (if is_running m then None else Some (Inr m))"
| "run_loop (e # es) m =
     (if is_running m then
        (case tick e m of
           Inl err \<Rightarrow> Some (Inl err)
         | Inr m' \<Rightarrow> run_loop es m')
      else Some (Inr m))"

text \<open>\<^verbatim>\<open>SystemMonitor.run\<close>; the last argument is the driver as \<^verbatim>\<open>shutdown\<close> finds it.\<close>

definition run :: "tick_env list \<Rightarrow> nvml \<Rightarrow> system_monitor \<Rightarrow> (py_error + system_monitor) option" where
  "run es d_exit m =
     (case run_loop es (m\<lparr>out := out m @ [LogInfo ''System monitor thread started.'']\<rparr>) of
        None \<Rightarrow> None
      | Some (Inl err) \<Rightarrow> Some (Inl err)
      | Some (Inr m') \<Rightarrow>
          Some (Inr (m'\<lparr>gpu_monitor := shutdown d_exit (gpu_monitor m'),
                        out := out m' @ [LogInfo ''System monitor thread stopped.'']\<rparr>)))"

section \<open>Answers and example inputs used in the statements below\<close>

text \<open>What each method answers on an object whose flag is cleared, as the code has it.\<close>

fun disabled_answer :: "gpu_monitor \<Rightarrow> gpu_op \<Rightarrow> gpu_result" where
  "disabled_answer g (MapPidsToGpus d) = Nothing"
| "disabled_answer g (GetGpuInfo d) = Devices []"
| "disabled_answer g (GetProcessGpuMemory p) = Memory (dict_get (pid_gpu_memory_map g) p 0)"
| "disabled_answer g (Shutdown d) = Nothing"

text \<open>The answers that are all empty: no device and no memory for any pid.\<close>

fun empty_answer :: "gpu_op \<Rightarrow> gpu_result" where
  "empty_answer (MapPidsToGpus d) = Nothing"
| "empty_answer (GetGpuInfo d) = Devices []"
| "empty_answer (GetProcessGpuMemory p) = Memory 0"
| "empty_answer (Shutdown d) = Nothing"

text \<open>All memory that the process lists \<open>ps 0, \<dots>, ps (n - 1)\<close> of \<open>n\<close> devices report for pid \<open>x\<close>.\<close>

definition reported_memory :: "(nat \<Rightarrow> proc_info list) \<Rightarrow> nat \<Rightarrow> int \<Rightarrow> int" where
  "reported_memory ps n x =
     sum_list (map usedGpuMemory (filter (\<lambda>p. pid p = x) (concat (map ps [0..<n]))))"

text \<open>A driver with nothing behind it: every call raises.\<close>

definition driver_down :: nvml where
  "driver_down =
     \<lparr>nvmlInit = Some (NVMLError ''Driver Not Loaded''),
      nvmlDeviceGetCount = Inl (NVMLError ''Uninitialized''),
      nvmlDeviceGetHandleByIndex = (\<lambda>i. Inl (NVMLError ''Uninitialized'')),
      nvmlDeviceGetComputeRunningProcesses = (\<lambda>h. Inl (NVMLError ''Uninitialized'')),
      nvmlDeviceGetName = (\<lambda>h. Inl (NVMLError ''Uninitialized'')),
      nvmlDeviceGetMemoryInfo = (\<lambda>h. Inl (NVMLError ''Uninitialized'')),
      nvmlDeviceGetUtilizationRates = (\<lambda>h. Inl (NVMLError ''Uninitialized'')),
      nvmlDeviceGetUUID = (\<lambda>h. Inl (NVMLError ''Uninitialized'')),
      nvmlShutdown = Some (NVMLError ''Uninitialized'')\<rparr>"

text \<open>
  Two devices, with handles 10 and 11. Pid 7 uses 100 MB on the first and 50 MB on the
  second; pid 9 uses 10 MB on the second.
\<close>

definition procs_of :: "handle \<Rightarrow> proc_info list" where
  "procs_of h =
     (if h = 10 then [\<lparr>pid = 7, usedGpuMemory = 104857600\<rparr>]
      else [\<lparr>pid = 9, usedGpuMemory = 10485760\<rparr>, \<lparr>pid = 7, usedGpuMemory = 52428800\<rparr>])"

definition driver_two_gpus :: nvml where
  "driver_two_gpus =
     \<lparr>nvmlInit = None,
      nvmlDeviceGetCount = Inr 2,
      nvmlDeviceGetHandleByIndex = (\<lambda>i. Inr (10 + i)),
      nvmlDeviceGetComputeRunningProcesses = (\<lambda>h. Inr (procs_of h)),
      nvmlDeviceGetName = (\<lambda>h. Inr ''GPU''),
      nvmlDeviceGetMemoryInfo = (\<lambda>h. Inr \<lparr>mem_total = 8589934592, mem_used = 2147483648\<rparr>),
      nvmlDeviceGetUtilizationRates = (\<lambda>h. Inr \<lparr>gpu = 40\<rparr>),
      nvmlDeviceGetUUID = (\<lambda>h. Inr ''GPU-0''),
      nvmlShutdown = None\<rparr>"

text \<open>The same driver when the second device stops answering in the middle of a call.\<close>

definition driver_gpu_lost :: nvml where
  "driver_gpu_lost =
     driver_two_gpus
       \<lparr>nvmlDeviceGetComputeRunningProcesses :=
          (\<lambda>h. if h = 11 then Inl (NVMLError ''GPU is lost'') else Inr (procs_of h)),
        nvmlDeviceGetMemoryInfo :=
          (\<lambda>h. if h = 11 then Inl (NVMLError ''GPU is lost'')
               else Inr \<lparr>mem_total = 8589934592, mem_used = 2147483648\<rparr>),
        nvmlShutdown := Some (NVMLError ''GPU is lost'')\<rparr>"

text \<open>
  The object after a successful start, one map refresh on the two devices, and a device
  listing during which the second device is lost.
\<close>

definition after_lost_listing :: gpu_monitor where
  "after_lost_listing =
     snd (gpu_run [MapPidsToGpus driver_two_gpus, GetGpuInfo driver_gpu_lost]
            (gpu_monitor_init True driver_two_gpus))"

text \<open>
  The percentage of one core between two readings, as the loop body computes and clamps
  it, and the four sums the loop accumulates over the cores \<open>0, \<dots>, n - 1\<close>.
\<close>

definition core_percent :: "cpu_times \<Rightarrow> cpu_times \<Rightarrow> real" where
  "core_percent current last_t =
     max 0 (min 100
       (if delta_all current last_t = 0 then 0
        else (delta_user current last_t + delta_system current last_t)
               / delta_all current last_t * 100))"

definition sum_delta ::
  "(cpu_times \<Rightarrow> cpu_times \<Rightarrow> real) \<Rightarrow> cpu_times list \<Rightarrow> cpu_times list \<Rightarrow> nat list \<Rightarrow> real" where
  "sum_delta delta current_times last_times is =
     sum_list (map (\<lambda>i. delta (current_times ! i) (last_times ! i)) is)"

text \<open>Arithmetic mean of a list of percentages.\<close>

definition mean :: "real list \<Rightarrow> real" where
  "mean ps = sum_list ps / real (length ps)"

text \<open>Two cores: an earlier reading and four later ones.\<close>

definition cores_before :: "cpu_times list" where
  "cores_before = [\<lparr>user = 10, system = 5, idle = 100\<rparr>, \<lparr>user = 20, system = 5, idle = 50\<rparr>]"

text \<open>Core 0 was busy for 1 s, core 1 idle for 3 s.\<close>

definition cores_uneven :: "cpu_times list" where
  "cores_uneven = [\<lparr>user = 11, system = 5, idle = 100\<rparr>, \<lparr>user = 20, system = 5, idle = 53\<rparr>]"

text \<open>Core 0 was busy 1 s of 2 s, core 1 busy 2 s of 4 s.\<close>

definition cores_same_load :: "cpu_times list" where
  "cores_same_load = [\<lparr>user = 11, system = 5, idle = 101\<rparr>, \<lparr>user = 21, system = 6, idle = 52\<rparr>]"

text \<open>
  Three cores whose counters do not all grow: on core 0 the user time grew by 2 s and the
  idle time went back by 1 s, core 1 did not move, and on core 2 the idle time went back
  by 1 s.
\<close>

definition three_cores_before :: "cpu_times list" where
  "three_cores_before =
     [\<lparr>user = 10, system = 5, idle = 100\<rparr>, \<lparr>user = 20, system = 5, idle = 50\<rparr>,
      \<lparr>user = 30, system = 5, idle = 70\<rparr>]"

definition three_cores_went_back :: "cpu_times list" where
  "three_cores_went_back =
     [\<lparr>user = 12, system = 5, idle = 99\<rparr>, \<lparr>user = 20, system = 5, idle = 50\<rparr>,
      \<lparr>user = 30, system = 5, idle = 69\<rparr>]"

text \<open>What a finished tick slept, and what a finished run published.\<close>

definition sleeps_of :: "py_error + system_monitor \<Rightarrow> real list option" where
  "sleeps_of r = (case r of Inl _ \<Rightarrow> None | Inr m \<Rightarrow> Some (sleeps (out m)))"

definition published :: "(py_error + system_monitor) option \<Rightarrow> snapshot list option" where
  "published r = (case r of Some (Inr m) \<Rightarrow> Some (emitted (out m)) | _ \<Rightarrow> None)"

text \<open>The snapshot that the collection of a tick produces.\<close>

definition tick_snapshot :: "tick_env \<Rightarrow> system_monitor \<Rightarrow> snapshot option" where
  "tick_snapshot e m =
     (case collect_data (host_now e) (driver_at_listing e)
             (m\<lparr>gpu_monitor := map_pids_to_gpus (driver_at_refresh e) (gpu_monitor m)\<rparr>) of
        Inl _ \<Rightarrow> None
      | Inr (system_data, _) \<Rightarrow> Some system_data)"

text \<open>The memory percentages of the records that the process loop produced.\<close>

definition memory_percents :: "py_error + process_data list \<Rightarrow> real list option" where
  "memory_percents r = (case r of Inl _ \<Rightarrow> None | Inr rs \<Rightarrow> Some (map proc_memory_percent rs))"

text \<open>
  A tick's collection returns when the reading of the CPU counters has no more cores than
  the previous one and the memory info of every process could be read. \<open>readable\<close> says
  the latter of a process list; \<open>collections_return n ticks\<close> says both of a sequence of
  ticks that starts from a reading of \<open>n\<close> cores.
\<close>

fun readable :: "(psutil_error + pinfo) list \<Rightarrow> bool" where
  "readable [] = True"
| "readable (Inl _ # procs) = readable procs"
| "readable (Inr pinfo # procs) = (pinfo_memory_info pinfo \<noteq> None \<and> readable procs)"

fun collections_return :: "nat \<Rightarrow> tick_env list \<Rightarrow> bool" where
  "collections_return n [] = True"
| "collections_return n (e # es) =
     (length (cpu_times_now (host_now e)) \<le> n
      \<and> readable (process_iter (host_now e))
      \<and> collections_return (length (cpu_times_now (host_now e))) es)"

text \<open>
  The order of the emits and sleeps of a run: \<open>None\<close> for an emitted snapshot, \<open>Some t\<close>
  for a sleep of \<open>t\<close> seconds. \<open>tick_timeline\<close> is what the specification lets one tick add
  to it: its snapshot, unless \<^verbatim>\<open>stop()\<close> came during the collection, and then a sleep for
  the rest of the interval, if any is left.
\<close>

fun timeline :: "effect list \<Rightarrow> real option list" where
  "timeline [] = []"
| "timeline (Emit s # os) = None # timeline os"
| "timeline (Sleep t # os) = Some t # timeline os"
| "timeline (_ # os) = timeline os"

definition tick_timeline :: "real \<Rightarrow> tick_env \<Rightarrow> real option list" where
  "tick_timeline interval e =
     (if stop_in_collection e then [] else [None])
     @ (if 0 < interval - (end_time e - start_time e)
        then [Some (interval - (end_time e - start_time e))] else [])"

definition timeline_of :: "(py_error + system_monitor) option \<Rightarrow> real option list option" where
  "timeline_of r = (case r of Some (Inr m) \<Rightarrow> Some (timeline (out m)) | _ \<Rightarrow> None)"

text \<open>
  Two processes that psutil could read, of which one has no resident memory, and one
  that it was denied: every field but the pid is \<^verbatim>\<open>None\<close>. A machine reporting 16 KiB
  of RAM and one reporting none; a monitor started with an interval of 1 s on a machine
  without the GPU library.
\<close>

definition procs_seen :: "(psutil_error + pinfo) list" where
  "procs_seen =
     [Inr \<lparr>pinfo_pid = 7, pinfo_name = Some ''python'', pinfo_username = Some ''ada'',
           pinfo_cpu_percent = Some 12, pinfo_memory_info = Some 4096,
           pinfo_cmdline = Some [''python'', ''train.py'']\<rparr>,
      Inr \<lparr>pinfo_pid = 1, pinfo_name = Some ''init'', pinfo_username = Some ''root'',
           pinfo_cpu_percent = Some 0, pinfo_memory_info = Some 0, pinfo_cmdline = Some []\<rparr>]"

definition pinfo_denied :: pinfo where
  "pinfo_denied =
     \<lparr>pinfo_pid = 4, pinfo_name = None, pinfo_username = None, pinfo_cpu_percent = None,
      pinfo_memory_info = None, pinfo_cmdline = None\<rparr>"

definition ram_some :: virtual_memory where
  "ram_some = \<lparr>vm_total = 16384, vm_used = 8192, vm_percent = 50\<rparr>"

definition ram_none :: virtual_memory where
  "ram_none = \<lparr>vm_total = 0, vm_used = 0, vm_percent = 0\<rparr>"

definition host_example :: host where
  "host_example =
     \<lparr>cpu_times_now = cores_uneven, virtual_memory_now = ram_some, process_iter = procs_seen,
      cpu_count_physical = Some 2, cpu_count_logical = Some 2\<rparr>"

definition monitor_at_start :: system_monitor where
  "monitor_at_start = system_monitor_init 1 False driver_down cores_before"

text \<open>
  Four ticks on that host: one whose collection takes 1.3 s, one whose collection takes
  0.25 s, and the latter with \<^verbatim>\<open>stop()\<close> called during the collection, or during the sleep.
\<close>

definition tick_slow :: tick_env where
  "tick_slow =
     \<lparr>start_time = 100, end_time = 101.3,
      driver_at_refresh = driver_down, driver_at_listing = driver_down,
      host_now = host_example, stop_in_collection = False, stop_in_sleep = False\<rparr>"

definition tick_fast :: tick_env where
  "tick_fast = tick_slow\<lparr>end_time := 100.25\<rparr>"

definition tick_stopped :: tick_env where
  "tick_stopped = tick_fast\<lparr>stop_in_collection := True\<rparr>"

definition tick_stopped_asleep :: tick_env where
  "tick_stopped_asleep = tick_fast\<lparr>stop_in_sleep := True\<rparr>"


text \<open>The fast tick on a host where psutil was denied one of the processes.\<close>

definition tick_denied :: tick_env where
  "tick_denied =
     tick_fast\<lparr>host_now := host_example\<lparr>process_iter := procs_seen @ [Inr pinfo_denied]\<rparr>\<rparr>"

section \<open>Properties of the GPU monitor\<close>

lemma gpu_step_disabled: "\<not> is_available g \<Longrightarrow> snd (gpu_step op g) = g"
  by (cases op) (simp_all add: map_pids_to_gpus_def get_gpu_info_def shutdown_def)

lemma gpu_run_disabled: "\<not> is_available g \<Longrightarrow> snd (gpu_run ops g) = g"
proof (induction ops)
  case Nil
  show ?case by simp
next
  case (Cons op ops)
  from Cons.prems have "snd (gpu_step op g) = g" by (rule gpu_step_disabled)
  with Cons show ?case by (simp add: split_beta)
qed

lemma map_pids_to_gpus_available: "is_available (map_pids_to_gpus d g) = is_available g"
  by (simp add: map_pids_to_gpus_def split: prod.splits sum.splits)

lemma shutdown_available: "is_available (shutdown d g) = is_available g"
  by (simp add: shutdown_def split: option.splits)

lemma get_gpu_info_available: "is_available (snd (get_gpu_info d g)) \<Longrightarrow> is_available g"
  by (simp add: get_gpu_info_def split: if_splits prod.splits sum.splits)

lemma gpu_step_available: "is_available (snd (gpu_step op g)) \<Longrightarrow> is_available g"
  by (cases op) (auto simp: map_pids_to_gpus_available shutdown_available split_beta
        dest: get_gpu_info_available)

lemma gpu_run_available: "is_available (snd (gpu_run ops g)) \<Longrightarrow> is_available g"
proof (induction ops arbitrary: g)
  case Nil
  then show ?case by simp
next
  case (Cons op ops)
  from Cons.prems have "is_available (snd (gpu_run ops (snd (gpu_step op g))))"
    by (simp add: split_beta)
  then have "is_available (snd (gpu_step op g))" by (rule Cons.IH)
  then show ?case by (rule gpu_step_available)
qed

lemma gpu_step_disabled_answer: "\<not> is_available g \<Longrightarrow> fst (gpu_step op g) = disabled_answer g op"
  by (cases op) (simp_all add: get_gpu_info_def get_process_gpu_memory_def)

lemma gpu_run_disabled_answers:
  "\<not> is_available g \<Longrightarrow> fst (gpu_run ops g) = map (disabled_answer g) ops"
proof (induction ops)
  case Nil
  show ?case by simp
next
  case (Cons op ops)
  from Cons.prems have "snd (gpu_step op g) = g" "fst (gpu_step op g) = disabled_answer g op"
    by (simp_all add: gpu_step_disabled gpu_step_disabled_answer)
  with Cons show ?case by (simp add: split_beta)
qed

lemma dict_get_add_procs:
  "dict_get (add_procs ps m) x 0 = dict_get m x 0 + sum_list (map usedGpuMemory (filter (\<lambda>p. pid p = x) ps))"
  by (induction ps arbitrary: m) (auto simp: dict_get_def)

lemma for_each_map_device_ok:
  assumes "\<forall>i\<in>set is. nvmlDeviceGetHandleByIndex d i = Inr (hs i)"
    and "\<forall>i\<in>set is. nvmlDeviceGetComputeRunningProcesses d (hs i) = Inr (ps i)"
  shows "fst (for_each (map_device d) is m) = Inr (fold (\<lambda>i. add_procs (ps i)) is m)"
  using assms
  by (induction "is" arbitrary: m) (simp_all add: map_device_def query_def split_beta)

lemma dict_get_fold_add_procs:
  "dict_get (fold (\<lambda>i. add_procs (ps i)) is m) x 0 =
     dict_get m x 0 + sum_list (map usedGpuMemory (filter (\<lambda>p. pid p = x) (concat (map ps is))))"
  by (induction "is" arbitrary: m) (simp_all add: dict_get_add_procs)

lemma dom_add_procs: "dom (add_procs ps m) = dom m \<union> pid ` set ps"
  by (induction ps arbitrary: m) auto


lemma upt_two: "[0..<2] = [0, Suc 0]"
  by (simp add: numeral_2_eq_2 upt_rec)

lemmas drivers = driver_gpu_lost_def driver_two_gpus_def driver_down_def procs_of_def
lemmas gpu_defs = map_pids_try_def gpu_info_try_def query_def map_device_def gpu_info_device_def
  get_process_gpu_memory_def map_pids_to_gpus_def gpu_monitor_init_def dict_get_def
  get_gpu_info_def shutdown_def upt_two

lemma empty_answer_disabled:
  "pid_gpu_memory_map g = Map.empty \<Longrightarrow> disabled_answer g op = empty_answer op"
  by (cases op) (simp_all add: dict_get_def)

lemma gpu_monitor_init_failed:
  assumes "\<not> (a \<and> nvmlInit d = None)"
  shows "\<not> is_available (gpu_monitor_init a d)" and "pid_gpu_memory_map (gpu_monitor_init a d) = Map.empty"
    and "length (filter (\<lambda>e. e = Call NvmlInit) (trace (gpu_monitor_init a d))) \<le> 1"
  using assms by (auto simp: gpu_monitor_init_def split: option.splits)

text \<open>
  Claim C7. When the construction of the monitor fails to initialise the driver library
  (the library is absent, or \<^verbatim>\<open>nvmlInit\<close> raises), then in every later sequence of method
  calls each device listing returns the empty list and each memory lookup returns 0; the
  object never changes again, and \<^verbatim>\<open>nvmlInit\<close> is called at most the one time of the
  constructor.
\<close>

theorem failed_init_stays_disabled:
  assumes "\<not> (PYNXML_AVAILABLE \<and> nvmlInit d0 = None)"
    and "g0 = gpu_monitor_init PYNXML_AVAILABLE d0"
  shows "fst (gpu_run ops g0) = map empty_answer ops
       \<and> snd (gpu_run ops g0) = g0
       \<and> length (filter (\<lambda>e. e = Call NvmlInit) (trace (snd (gpu_run ops g0)))) \<le> 1"
proof -
  have off: "\<not> is_available g0" and empty: "pid_gpu_memory_map g0 = Map.empty"
    and once: "length (filter (\<lambda>e. e = Call NvmlInit) (trace g0)) \<le> 1"
    unfolding assms(2) by (rule gpu_monitor_init_failed [OF assms(1)])+
  from off have same: "snd (gpu_run ops g0) = g0" by (rule gpu_run_disabled)
  from off have "fst (gpu_run ops g0) = map (disabled_answer g0) ops"
    by (rule gpu_run_disabled_answers)
  also from empty have "\<dots> = map empty_answer ops"
    by (simp add: empty_answer_disabled)
  finally show ?thesis using same once by simp
qed

theorem failed_init_stays_disabled_witness:
  "\<not> (True \<and> nvmlInit driver_down = None)
   \<and> fst (gpu_run [MapPidsToGpus driver_two_gpus, GetGpuInfo driver_two_gpus,
                    GetProcessGpuMemory 7, Shutdown driver_two_gpus]
             (gpu_monitor_init True driver_down))
       = [Nothing, Devices [], Memory 0, Nothing]
   \<and> snd (gpu_run [MapPidsToGpus driver_two_gpus, GetGpuInfo driver_two_gpus,
                    GetProcessGpuMemory 7, Shutdown driver_two_gpus]
             (gpu_monitor_init True driver_down))
       = gpu_monitor_init True driver_down"
  using failed_init_stays_disabled [of True driver_down "gpu_monitor_init True driver_down"
      "[MapPidsToGpus driver_two_gpus, GetGpuInfo driver_two_gpus,
        GetProcessGpuMemory 7, Shutdown driver_two_gpus]"]
  by (simp add: driver_down_def)

text \<open>
  Claim C2, as the code has it. Once the availability flag is cleared it is never set
  again: every later method call leaves the whole object as it is, so the device listing
  returns the empty list, the map refresh and the shutdown do nothing, and the memory
  lookup keeps answering from the map as it was when the flag was cleared.
\<close>

theorem cleared_flag_is_absorbing:
  assumes "\<not> is_available g"
  shows "\<not> is_available (snd (gpu_run ops g))
       \<and> snd (gpu_run ops g) = g
       \<and> fst (gpu_run ops g) = map (disabled_answer g) ops"
  using assms by (simp add: gpu_run_disabled gpu_run_disabled_answers)

lemma after_lost_listing_flag: "\<not> is_available after_lost_listing"
  by (simp add: after_lost_listing_def gpu_defs drivers)

lemma after_lost_listing_map: "pid_gpu_memory_map after_lost_listing 7 = Some 157286400"
  by (simp add: after_lost_listing_def gpu_defs drivers)

lemma after_lost_listing_absent: "pid_gpu_memory_map after_lost_listing 8 = None"
  by (simp add: after_lost_listing_def gpu_defs drivers)

theorem cleared_flag_is_absorbing_witness:
  "\<not> is_available after_lost_listing
   \<and> fst (gpu_run [MapPidsToGpus driver_two_gpus, GetGpuInfo driver_two_gpus,
                    GetProcessGpuMemory 7, GetProcessGpuMemory 8] after_lost_listing)
       = [Nothing, Devices [], Memory 157286400, Memory 0]"
proof -
  have off: "\<not> is_available after_lost_listing"
    by (rule after_lost_listing_flag)
  have "fst (gpu_run [MapPidsToGpus driver_two_gpus, GetGpuInfo driver_two_gpus,
                      GetProcessGpuMemory 7, GetProcessGpuMemory 8] after_lost_listing)
        = map (disabled_answer after_lost_listing)
            [MapPidsToGpus driver_two_gpus, GetGpuInfo driver_two_gpus,
             GetProcessGpuMemory 7, GetProcessGpuMemory 8]"
    using cleared_flag_is_absorbing [OF off] by blast
  also have "\<dots> = [Nothing, Devices [], Memory 157286400, Memory 0]"
    by (simp add: dict_get_def after_lost_listing_map after_lost_listing_absent)
  finally show ?thesis using off by blast
qed

text \<open>
  The lookup is not emptied when the flag is cleared: after a refresh that found pid 7
  on two devices and a device listing that lost a device, the flag is cleared and the
  lookup of pid 7 still answers 150 MB.
\<close>

theorem lookup_after_disable_counterexample:
  "is_available (gpu_monitor_init True driver_two_gpus)
   \<and> \<not> is_available
        (snd (gpu_run [MapPidsToGpus driver_two_gpus, GetGpuInfo driver_gpu_lost]
               (gpu_monitor_init True driver_two_gpus)))
   \<and> fst (gpu_run [MapPidsToGpus driver_two_gpus, GetGpuInfo driver_gpu_lost,
                    GetProcessGpuMemory 7]
             (gpu_monitor_init True driver_two_gpus))
       = [Nothing, Devices [], Memory 157286400]"
  by (simp add: gpu_defs drivers)

lemma get_gpu_info_disabled: "\<not> is_available g \<Longrightarrow> fst (get_gpu_info d g) = []"
  by (simp add: get_gpu_info_def)

lemma get_gpu_info_failure:
  assumes "is_available g" and "fst (gpu_info_try d) = Inl e"
  shows "fst (get_gpu_info d g) = []" and "\<not> is_available (snd (get_gpu_info d g))"
  using assms by (auto simp: get_gpu_info_def split: prod.splits sum.splits)

lemma map_pids_to_gpus_failure:
  assumes "is_available g" and "fst (map_pids_try d) = Inl e"
  shows "pid_gpu_memory_map (map_pids_to_gpus d g) = Map.empty"
  using assms by (auto simp: map_pids_to_gpus_def split: prod.splits sum.splits)

lemma map_pids_to_gpus_success:
  assumes "is_available g" and "fst (map_pids_try d) = Inr m"
  shows "pid_gpu_memory_map (map_pids_to_gpus d g) = m"
  using assms by (auto simp: map_pids_to_gpus_def split: prod.splits sum.splits)

text \<open>
  Claim C3. On an enabled object, a query that fails during the device listing clears the
  flag: that call returns the empty list, and so does every later device listing, whatever
  is called in between and whatever the driver answers then. A query that fails during the
  map refresh leaves only an empty map: the flag stays set, and the next refresh asks the
  driver again and stores what it finds.
\<close>

theorem listing_failure_disables_refresh_failure_resets:
  assumes "is_available g"
  shows "(fst (gpu_info_try d) = Inl e \<longrightarrow>
            fst (get_gpu_info d g) = []
          \<and> \<not> is_available (snd (get_gpu_info d g))
          \<and> (\<forall>ops d'. fst (get_gpu_info d' (snd (gpu_run ops (snd (get_gpu_info d g))))) = []))
       \<and> (fst (map_pids_try d) = Inl e \<longrightarrow>
            pid_gpu_memory_map (map_pids_to_gpus d g) = Map.empty
          \<and> is_available (map_pids_to_gpus d g)
          \<and> (\<forall>d' m. fst (map_pids_try d') = Inr m \<longrightarrow>
                pid_gpu_memory_map (map_pids_to_gpus d' (map_pids_to_gpus d g)) = m))"
proof (intro conjI impI allI)
  assume f: "fst (gpu_info_try d) = Inl e"
  from assms f show "fst (get_gpu_info d g) = []"
    by (rule get_gpu_info_failure)
  from assms f show off: "\<not> is_available (snd (get_gpu_info d g))"
    by (rule get_gpu_info_failure)
  fix ops d'
  from off have "snd (gpu_run ops (snd (get_gpu_info d g))) = snd (get_gpu_info d g)"
    by (rule gpu_run_disabled)
  with off show "fst (get_gpu_info d' (snd (gpu_run ops (snd (get_gpu_info d g))))) = []"
    by (simp add: get_gpu_info_disabled)
next
  assume f: "fst (map_pids_try d) = Inl e"
  from assms f show "pid_gpu_memory_map (map_pids_to_gpus d g) = Map.empty"
    by (rule map_pids_to_gpus_failure)
  from assms show on: "is_available (map_pids_to_gpus d g)"
    by (simp add: map_pids_to_gpus_available)
  fix d' m
  assume "fst (map_pids_try d') = Inr m"
  with on show "pid_gpu_memory_map (map_pids_to_gpus d' (map_pids_to_gpus d g)) = m"
    by (rule map_pids_to_gpus_success)
qed

lemma init_two_gpus_available: "is_available (gpu_monitor_init True driver_two_gpus)"
  by (simp add: gpu_monitor_init_def driver_two_gpus_def)

lemma gpu_lost_listing_fails: "fst (gpu_info_try driver_gpu_lost) = Inl (NVMLError ''GPU is lost'')"
  by (simp add: gpu_defs drivers)

lemma gpu_lost_refresh_fails: "fst (map_pids_try driver_gpu_lost) = Inl (NVMLError ''GPU is lost'')"
  by (simp add: gpu_defs drivers)

lemma two_gpus_refresh_ok:
  "fst (map_pids_try driver_two_gpus) = Inr [7 \<mapsto> 157286400, 9 \<mapsto> 10485760]"
  by (simp add: gpu_defs drivers fun_upd_twist)

theorem listing_failure_disables_refresh_failure_resets_witness:
  "is_available (gpu_monitor_init True driver_two_gpus)
   \<and> fst (gpu_info_try driver_gpu_lost) = Inl (NVMLError ''GPU is lost'')
   \<and> fst (map_pids_try driver_gpu_lost) = Inl (NVMLError ''GPU is lost'')
   \<and> fst (map_pids_try driver_two_gpus) = Inr [7 \<mapsto> 157286400, 9 \<mapsto> 10485760]
   \<and> fst (get_gpu_info driver_gpu_lost (gpu_monitor_init True driver_two_gpus)) = []
   \<and> fst (get_gpu_info driver_two_gpus
            (snd (gpu_run [MapPidsToGpus driver_two_gpus]
                   (snd (get_gpu_info driver_gpu_lost (gpu_monitor_init True driver_two_gpus))))))
       = []
   \<and> pid_gpu_memory_map (map_pids_to_gpus driver_gpu_lost (gpu_monitor_init True driver_two_gpus))
       = Map.empty
   \<and> is_available (map_pids_to_gpus driver_gpu_lost (gpu_monitor_init True driver_two_gpus))
   \<and> pid_gpu_memory_map
        (map_pids_to_gpus driver_two_gpus
          (map_pids_to_gpus driver_gpu_lost (gpu_monitor_init True driver_two_gpus)))
       = [7 \<mapsto> 157286400, 9 \<mapsto> 10485760]"
  using listing_failure_disables_refresh_failure_resets
      [OF init_two_gpus_available, of driver_gpu_lost "NVMLError ''GPU is lost''"]
    init_two_gpus_available gpu_lost_listing_fails gpu_lost_refresh_fails two_gpus_refresh_ok
  by blast

text \<open>
  Claim C4. The lookup returns 0 for a pid that the map does not hold. After a refresh in
  which every query succeeds, the lookup of a pid returns the sum of the memory that all
  devices report for it: 100 MB on one device and 50 MB on another give 150 MB.
\<close>

theorem lookup_is_sum_over_devices:
  assumes "is_available g"
    and "nvmlDeviceGetCount d = Inr n"
    and "\<forall>i<n. nvmlDeviceGetHandleByIndex d i = Inr (hs i)"
    and "\<forall>i<n. nvmlDeviceGetComputeRunningProcesses d (hs i) = Inr (ps i)"
  shows "get_process_gpu_memory (map_pids_to_gpus d g) x = reported_memory ps n x
       \<and> (\<forall>g' y. pid_gpu_memory_map g' y = None \<longrightarrow> get_process_gpu_memory g' y = 0)"
proof -
  from assms(3,4)
  have "fst (for_each (map_device d) [0..<n] Map.empty)
          = Inr (fold (\<lambda>i. add_procs (ps i)) [0..<n] Map.empty)"
    by (intro for_each_map_device_ok [where hs = hs]) simp_all
  with assms(2)
  have "fst (map_pids_try d) = Inr (fold (\<lambda>i. add_procs (ps i)) [0..<n] Map.empty)"
    by (simp add: map_pids_try_def query_def split_beta)
  with assms(1)
  have "pid_gpu_memory_map (map_pids_to_gpus d g) = fold (\<lambda>i. add_procs (ps i)) [0..<n] Map.empty"
    by (rule map_pids_to_gpus_success)
  then have "get_process_gpu_memory (map_pids_to_gpus d g) x = reported_memory ps n x"
    by (simp add: get_process_gpu_memory_def reported_memory_def dict_get_fold_add_procs)
      (simp add: dict_get_def)
  then show ?thesis
    by (simp add: get_process_gpu_memory_def dict_get_def)
qed

theorem lookup_is_sum_over_devices_witness:
  "is_available (gpu_monitor_init True driver_two_gpus)
   \<and> nvmlDeviceGetCount driver_two_gpus = Inr 2
   \<and> nvmlDeviceGetHandleByIndex driver_two_gpus 0 = Inr 10
   \<and> nvmlDeviceGetHandleByIndex driver_two_gpus 1 = Inr 11
   \<and> nvmlDeviceGetComputeRunningProcesses driver_two_gpus 10 = Inr (procs_of 10)
   \<and> nvmlDeviceGetComputeRunningProcesses driver_two_gpus 11 = Inr (procs_of 11)
   \<and> get_process_gpu_memory
        (map_pids_to_gpus driver_two_gpus (gpu_monitor_init True driver_two_gpus)) 7
       = 104857600 + 52428800
   \<and> pid_gpu_memory_map
        (map_pids_to_gpus driver_two_gpus (gpu_monitor_init True driver_two_gpus)) 8 = None
   \<and> get_process_gpu_memory
        (map_pids_to_gpus driver_two_gpus (gpu_monitor_init True driver_two_gpus)) 8 = 0"
proof -
  have a: "nvmlDeviceGetCount driver_two_gpus = Inr 2"
    and b: "\<forall>i<2. nvmlDeviceGetHandleByIndex driver_two_gpus i = Inr (10 + i)"
    and c: "\<forall>i<2. nvmlDeviceGetComputeRunningProcesses driver_two_gpus (10 + i) = Inr (procs_of (10 + i))"
    by (simp_all add: driver_two_gpus_def)
  have r: "reported_memory (\<lambda>i. procs_of (10 + i)) 2 7 = 104857600 + 52428800"
    by (simp add: reported_memory_def procs_of_def upt_two)
  have absent: "pid_gpu_memory_map
        (map_pids_to_gpus driver_two_gpus (gpu_monitor_init True driver_two_gpus)) 8 = None"
    using map_pids_to_gpus_success [OF init_two_gpus_available two_gpus_refresh_ok] by simp
  have q: "nvmlDeviceGetHandleByIndex driver_two_gpus 0 = Inr 10"
    "nvmlDeviceGetHandleByIndex driver_two_gpus 1 = Inr 11"
    "nvmlDeviceGetComputeRunningProcesses driver_two_gpus 10 = Inr (procs_of 10)"
    "nvmlDeviceGetComputeRunningProcesses driver_two_gpus 11 = Inr (procs_of 11)"
    by (simp_all add: driver_two_gpus_def)
  from lookup_is_sum_over_devices [OF init_two_gpus_available a b c, of 7] r
  have s: "get_process_gpu_memory
        (map_pids_to_gpus driver_two_gpus (gpu_monitor_init True driver_two_gpus)) 7
       = 104857600 + 52428800"
    and z: "get_process_gpu_memory
        (map_pids_to_gpus driver_two_gpus (gpu_monitor_init True driver_two_gpus)) 8 = 0"
    using absent by simp_all
  from s z absent init_two_gpus_available a q show ?thesis by simp
qed

text \<open>
  Claim C8, as the code has it. \<^verbatim>\<open>shutdown\<close> releases the driver library exactly when the
  availability flag is still set: it then calls \<^verbatim>\<open>nvmlShutdown\<close> once, and an error
  raised by that call ends in a log line, not in an exception. When the flag is cleared,
  by a failed start or by a device listing that failed after a successful start,
  \<^verbatim>\<open>shutdown\<close> does nothing at all. It never changes the flag or the map.
\<close>

theorem shutdown_releases_only_while_available:
  "(is_available g \<longrightarrow>
      trace (shutdown d g) = trace g @
        [Call NvmlShutdown,
         (case nvmlShutdown d of
            None \<Rightarrow> Log INFO ''pynvml shut down successfully.''
          | Some e \<Rightarrow> Log ERROR (''Error during pynvml shutdown: '' @ text_of e))])
   \<and> (\<not> is_available g \<longrightarrow> shutdown d g = g)
   \<and> is_available (shutdown d g) = is_available g
   \<and> pid_gpu_memory_map (shutdown d g) = pid_gpu_memory_map g"
  by (simp add: shutdown_def split: option.splits)

theorem shutdown_releases_only_while_available_witness:
  "is_available (gpu_monitor_init True driver_two_gpus)
   \<and> trace (shutdown driver_gpu_lost (gpu_monitor_init True driver_two_gpus))
       = trace (gpu_monitor_init True driver_two_gpus)
         @ [Call NvmlShutdown, Log ERROR ''Error during pynvml shutdown: GPU is lost'']
   \<and> \<not> is_available after_lost_listing
   \<and> shutdown driver_two_gpus after_lost_listing = after_lost_listing"
proof -
  have e: "nvmlShutdown driver_gpu_lost = Some (NVMLError ''GPU is lost'')"
    by (simp add: drivers)
  from shutdown_releases_only_while_available
         [of "gpu_monitor_init True driver_two_gpus" driver_gpu_lost]
       init_two_gpus_available
  have "trace (shutdown driver_gpu_lost (gpu_monitor_init True driver_two_gpus))
          = trace (gpu_monitor_init True driver_two_gpus)
            @ [Call NvmlShutdown, Log ERROR ''Error during pynvml shutdown: GPU is lost'']"
    by (simp add: e)
  moreover
  from shutdown_releases_only_while_available [of after_lost_listing driver_two_gpus]
       after_lost_listing_flag
  have "shutdown driver_two_gpus after_lost_listing = after_lost_listing"
    by blast
  ultimately show ?thesis
    using init_two_gpus_available after_lost_listing_flag by blast
qed

text \<open>
  A run in which initialisation succeeded and the library is never released: the device
  listing loses a device, and the shutdown that follows makes no driver call.
\<close>

theorem no_release_after_lost_listing_counterexample:
  "is_available (gpu_monitor_init True driver_two_gpus)
   \<and> Call NvmlInit \<in> set (trace (gpu_monitor_init True driver_two_gpus))
   \<and> Call NvmlShutdown \<notin> set (trace (snd (gpu_run
        [MapPidsToGpus driver_two_gpus, GetGpuInfo driver_gpu_lost, Shutdown driver_two_gpus]
        (gpu_monitor_init True driver_two_gpus))))"
  by (simp add: gpu_defs drivers)

section \<open>Properties of the system monitor\<close>

lemma percent_of_value: "percent_of busy all = Inr (if all = 0 then 0 else busy / all * 100)"
  by (simp add: percent_of_def py_truediv_def)

lemma cpu_core_value:
  "cpu_core cur prev i acc =
     (if i < length cur \<and> i < length prev then
        Inr \<lparr>per_cpu_percent = per_cpu_percent acc @ [core_percent (cur ! i) (prev ! i)],
             total_delta_user = total_delta_user acc + delta_user (cur ! i) (prev ! i),
             total_delta_system = total_delta_system acc + delta_system (cur ! i) (prev ! i),
             total_delta_idle = total_delta_idle acc + delta_idle (cur ! i) (prev ! i),
             total_delta_all = total_delta_all acc + delta_all (cur ! i) (prev ! i)\<rparr>
      else Inl IndexError)"
  by (simp add: cpu_core_def py_index_def percent_of_value core_percent_def)

lemma cpu_loop_in_range:
  assumes "\<forall>i\<in>set is. i < length cur \<and> i < length prev"
  shows "cpu_loop cur prev is acc =
     Inr \<lparr>per_cpu_percent = per_cpu_percent acc @ map (\<lambda>i. core_percent (cur ! i) (prev ! i)) is,
          total_delta_user = total_delta_user acc + sum_delta delta_user cur prev is,
          total_delta_system = total_delta_system acc + sum_delta delta_system cur prev is,
          total_delta_idle = total_delta_idle acc + sum_delta delta_idle cur prev is,
          total_delta_all = total_delta_all acc + sum_delta delta_all cur prev is\<rparr>"
  using assms
proof (induction "is" arbitrary: acc)
  case Nil
  show ?case by (simp add: sum_delta_def)
next
  case (Cons i "is")
  then show ?case by (simp add: cpu_core_value sum_delta_def algebra_simps)
qed

lemma cpu_loop_error: "cpu_loop cur prev is acc = Inl e \<Longrightarrow> e = IndexError"
  by (induction "is" arbitrary: acc) (auto simp: cpu_core_value split: if_splits)

lemma cpu_loop_out_of_range:
  assumes "\<exists>i\<in>set is. \<not> (i < length cur \<and> i < length prev)"
  shows "cpu_loop cur prev is acc = Inl IndexError"
  using assms
  by (induction "is" arbitrary: acc) (auto simp: cpu_core_value)

text \<open>What \<^verbatim>\<open>_calculate_cpu_percent\<close> returns, in closed form.\<close>

lemma cpu_percent_value:
  "cpu_percent cur prev =
     (if length cur \<le> length prev then
        Inr (max 0 (min 100
               (if sum_delta delta_all cur prev [0..<length cur] = 0 then 0
                else (sum_delta delta_user cur prev [0..<length cur]
                        + sum_delta delta_system cur prev [0..<length cur])
                       / sum_delta delta_all cur prev [0..<length cur] * 100)),
             map (\<lambda>i. core_percent (cur ! i) (prev ! i)) [0..<length cur])
      else Inl IndexError)"
proof (cases "length cur \<le> length prev")
  case True
  then have "\<forall>i\<in>set [0..<length cur]. i < length cur \<and> i < length prev" by simp
  from cpu_loop_in_range [OF this] True show ?thesis
    by (simp add: cpu_percent_def percent_of_value)
next
  case False
  then have "\<exists>i\<in>set [0..<length cur]. \<not> (i < length cur \<and> i < length prev)"
    by (intro bexI [of _ "length prev"]) simp_all
  from cpu_loop_out_of_range [OF this] False show ?thesis
    by (simp add: cpu_percent_def)
qed

lemma core_percent_bounds: "0 \<le> core_percent c p \<and> core_percent c p \<le> 100"
  by (simp add: core_percent_def)

lemma core_percent_zero: "delta_all c p = 0 \<Longrightarrow> core_percent c p = 0"
  by (simp add: core_percent_def)

text \<open>
  Claim C5. For any two readings, with any counter values, the computation never ends in
  a division error, and it returns whenever the previous reading has a counter for every
  core of the current one. Every percentage it returns, per core and total, lies between
  0 and 100; a core whose three deltas sum to 0 gets exactly 0, and so does the total when
  the deltas of all cores sum to 0.
\<close>

theorem cpu_percent_clamped:
  "cpu_percent cur prev \<noteq> Inl ZeroDivisionError
   \<and> (length cur \<le> length prev \<longrightarrow> (\<exists>t ps. cpu_percent cur prev = Inr (t, ps)))
   \<and> (\<forall>t ps. cpu_percent cur prev = Inr (t, ps) \<longrightarrow>
        0 \<le> t \<and> t \<le> 100
      \<and> length ps = length cur
      \<and> (\<forall>i<length cur. 0 \<le> ps ! i \<and> ps ! i \<le> 100)
      \<and> (\<forall>i<length cur. delta_all (cur ! i) (prev ! i) = 0 \<longrightarrow> ps ! i = 0)
      \<and> (sum_delta delta_all cur prev [0..<length cur] = 0 \<longrightarrow> t = 0))"
  by (simp add: cpu_percent_value core_percent_bounds core_percent_zero)

lemma upt_length_two: "[0..<length [a, b]] = [0, Suc 0]"
  by (simp add: upt_rec)

lemmas cpu_defs = cpu_percent_value upt_length_two sum_delta_def core_percent_def delta_all_def
  delta_user_def delta_system_def delta_idle_def

lemma upt_length_three: "[0..<length [a, b, c]] = [0, Suc 0, Suc (Suc 0)]"
  by (simp add: upt_rec)

lemma went_back_value:
  "cpu_percent three_cores_went_back three_cores_before = Inr (0, [100, 0, 0])"
  by (simp add: cpu_defs upt_length_three three_cores_went_back_def three_cores_before_def)

theorem cpu_percent_clamped_witness:
  "length three_cores_went_back \<le> length three_cores_before
   \<and> cpu_percent three_cores_went_back three_cores_before = Inr (0, [100, 0, 0])
   \<and> delta_idle (three_cores_went_back ! 0) (three_cores_before ! 0) = - 1
   \<and> delta_all (three_cores_went_back ! 1) (three_cores_before ! 1) = 0
   \<and> sum_delta delta_all three_cores_went_back three_cores_before
        [0..<length three_cores_went_back] = 0"
proof -
  have len: "length three_cores_went_back \<le> length three_cores_before"
    by (simp add: three_cores_went_back_def three_cores_before_def)
  have d: "delta_idle (three_cores_went_back ! 0) (three_cores_before ! 0) = - 1"
    "delta_all (three_cores_went_back ! 1) (three_cores_before ! 1) = 0"
    "sum_delta delta_all three_cores_went_back three_cores_before
       [0..<length three_cores_went_back] = 0"
    by (simp_all add: three_cores_went_back_def three_cores_before_def upt_length_three
        sum_delta_def delta_all_def delta_user_def delta_system_def delta_idle_def)
  from cpu_percent_clamped [of three_cores_went_back three_cores_before] len
  obtain t ps where r: "cpu_percent three_cores_went_back three_cores_before = Inr (t, ps)"
    by blast
  with went_back_value have "t = 0" "ps = [100, 0, 0]" by simp_all
  with r len d show ?thesis by simp
qed

text \<open>
  Claim C6, as the code has it. The total is computed from the deltas summed over all
  cores: 0 when the summed delta is 0, and otherwise
  \<open>(sum_user + sum_system) / sum_all * 100\<close>, clamped to \<open>[0, 100]\<close>. It is not the mean of
  the per-core percentages.
\<close>

theorem total_percent_from_sums:
  assumes "length cur \<le> length prev"
  shows "\<exists>ps. cpu_percent cur prev =
     Inr (max 0 (min 100
            (if sum_delta delta_all cur prev [0..<length cur] = 0 then 0
             else (sum_delta delta_user cur prev [0..<length cur]
                     + sum_delta delta_system cur prev [0..<length cur])
                    / sum_delta delta_all cur prev [0..<length cur] * 100)), ps)"
  using assms by (simp add: cpu_percent_value)

lemma uneven_value: "cpu_percent cores_uneven cores_before = Inr (25, [100, 0])"
  by (simp add: cpu_defs cores_uneven_def cores_before_def)

text \<open>One core busy for 1 s and one idle for 3 s: the total is 25, the mean is 50.\<close>

theorem total_percent_from_sums_witness:
  "length cores_uneven \<le> length cores_before
   \<and> cpu_percent cores_uneven cores_before = Inr (25, [100, 0])
   \<and> mean [100, 0] = 50
   \<and> delta_all (cores_uneven ! 0) (cores_before ! 0) = 1
   \<and> delta_all (cores_uneven ! 1) (cores_before ! 1) = 3"
proof -
  have len: "length cores_uneven \<le> length cores_before"
    by (simp add: cores_uneven_def cores_before_def)
  from total_percent_from_sums [OF len]
  obtain ps where r: "cpu_percent cores_uneven cores_before =
     Inr (max 0 (min 100
            (if sum_delta delta_all cores_uneven cores_before [0..<length cores_uneven] = 0 then 0
             else (sum_delta delta_user cores_uneven cores_before [0..<length cores_uneven]
                     + sum_delta delta_system cores_uneven cores_before [0..<length cores_uneven])
                    / sum_delta delta_all cores_uneven cores_before [0..<length cores_uneven] * 100)), ps)"
    by blast
  have "cpu_percent cores_uneven cores_before = Inr (25, [100, 0])"
    using r uneven_value by simp
  moreover have "mean [100, 0] = 50" by (simp add: mean_def)
  moreover have "delta_all (cores_uneven ! 0) (cores_before ! 0) = 1"
    "delta_all (cores_uneven ! 1) (cores_before ! 1) = 3"
    by (simp_all add: cores_uneven_def cores_before_def delta_all_def delta_user_def
        delta_system_def delta_idle_def)
  ultimately show ?thesis using len by simp
qed

text \<open>
  Unequal delta totals alone do not make the total differ from the mean: two cores with
  delta totals 2 s and 4 s, each busy half of its time, give the total 50 and the mean 50.
\<close>

theorem same_load_counterexample:
  "delta_all (cores_same_load ! 0) (cores_before ! 0) = 2
   \<and> delta_all (cores_same_load ! 1) (cores_before ! 1) = 4
   \<and> cpu_percent cores_same_load cores_before = Inr (50, [50, 50])
   \<and> mean [50, 50] = 50"
  by (simp add: cpu_defs cores_same_load_def cores_before_def mean_def)

lemma memory_percent_of_value:
  "pinfo_memory_info p = Some rss \<Longrightarrow>
     memory_percent_of ram_total p =
       Inr (if ram_total = 0 then 0 else real_of_int rss / real_of_int ram_total * 100)"
  by (simp add: memory_percent_of_def rss_of_def py_truediv_def)

lemma memory_percent_of_no_ram: "memory_percent_of 0 p = Inr 0"
  by (simp add: memory_percent_of_def)

lemma process_record_ok:
  "pinfo_memory_info p = Some rss \<Longrightarrow>
     \<exists>r. process_record ram g p = Inr r
       \<and> proc_memory_bytes r = rss
       \<and> proc_memory_percent r =
           (if vm_total ram = 0 then 0
            else real_of_int rss / real_of_int (vm_total ram) * 100)"
  by (simp add: process_record_def rss_of_def memory_percent_of_value)

lemma process_record_denied:
  "pinfo_memory_info p = None \<Longrightarrow> process_record ram g p = Inl AttributeError"
  by (simp add: process_record_def rss_of_def)

lemma collect_processes_ok:
  assumes "readable procs"
    and "\<forall>r\<in>set acc. P r"
    and "\<And>p r. process_record ram g p = Inr r \<Longrightarrow> P r"
  shows "\<exists>rs. collect_processes ram g procs acc = Inr rs \<and> (\<forall>r\<in>set rs. P r)"
  using assms(1,2)
proof (induction procs arbitrary: acc)
  case Nil
  then show ?case by simp
next
  case (Cons x procs)
  show ?case
  proof (cases x)
    case (Inl err)
    with Cons show ?thesis by simp
  next
    case (Inr p)
    with Cons.prems(1) obtain rss where "pinfo_memory_info p = Some rss" and rest: "readable procs"
      by auto
    with process_record_ok obtain r where r: "process_record ram g p = Inr r" by blast
    with Cons.prems(2) assms(3) have "\<forall>r'\<in>set (acc @ [r]). P r'" by auto
    from Cons.IH [OF rest this] Inr r show ?thesis by simp
  qed
qed

text \<open>The division is never what goes wrong: for readable processes the loop returns.\<close>

lemma collect_processes_readable:
  assumes "readable procs"
  shows "\<exists>rs. collect_processes ram g procs [] = Inr rs
        \<and> (\<forall>r\<in>set rs.
             (proc_memory_bytes r = 0 \<longrightarrow> proc_memory_percent r = 0)
           \<and> (vm_total ram = 0 \<longrightarrow> proc_memory_percent r = 0))"
proof (rule collect_processes_ok [OF assms])
  show "\<forall>r\<in>set []. (proc_memory_bytes r = 0 \<longrightarrow> proc_memory_percent r = 0)
           \<and> (vm_total ram = 0 \<longrightarrow> proc_memory_percent r = 0)"
    by simp
next
  fix p r
  assume r: "process_record ram g p = Inr r"
  show "(proc_memory_bytes r = 0 \<longrightarrow> proc_memory_percent r = 0)
           \<and> (vm_total ram = 0 \<longrightarrow> proc_memory_percent r = 0)"
  proof (cases "pinfo_memory_info p")
    case None
    with r show ?thesis by (simp add: process_record_denied)
  next
    case (Some rss)
    from process_record_ok [OF Some, of ram g] r show ?thesis by auto
  qed
qed

lemmas proc_defs = process_record_def memory_percent_of_def rss_of_def py_truediv_def
  get_process_gpu_memory_def dict_get_def gpu_monitor_init_def procs_seen_def pinfo_denied_def
  ram_some_def ram_none_def memory_percents_def

lemma calculate_cpu_percent_ok:
  assumes "length cur \<le> length (last_cpu_times m)"
  shows "\<exists>r. calculate_cpu_percent cur m = Inr (r, m\<lparr>last_cpu_times := cur\<rparr>)"
  using assms by (simp add: calculate_cpu_percent_def cpu_percent_value)

lemma collect_processes_returns:
  "readable procs \<Longrightarrow> \<exists>rs. collect_processes ram g procs acc = Inr rs"
  using collect_processes_ok [of procs acc "\<lambda>r. True" ram g] by auto

lemma collect_data_ok:
  assumes "length (cpu_times_now h) \<le> length (last_cpu_times m)"
    and "readable (process_iter h)"
  shows "\<exists>system_data m'. collect_data h d m = Inr (system_data, m')
           \<and> out m' = out m \<and> is_running m' = is_running m
           \<and> refresh_interval m' = refresh_interval m
           \<and> last_cpu_times m' = cpu_times_now h"
proof -
  from calculate_cpu_percent_ok [OF assms(1)] obtain r where
    c: "calculate_cpu_percent (cpu_times_now h) m = Inr (r, m\<lparr>last_cpu_times := cpu_times_now h\<rparr>)"
    by blast
  obtain rs where
    p: "collect_processes (virtual_memory_now h) (gpu_monitor m) (process_iter h) [] = Inr rs"
    using collect_processes_returns [OF assms(2)] by blast
  from c p show ?thesis
    by (cases r) (simp add: collect_data_def split_beta Let_def)
qed

text \<open>One round of the loop when the collection succeeds, in closed form.\<close>

lemma tick_ok:
  assumes "length (cpu_times_now (host_now e)) \<le> length (last_cpu_times m)"
    and "readable (process_iter (host_now e))"
  shows "\<exists>system_data m'. tick_snapshot e m = Some system_data \<and> tick e m = Inr m'
     \<and> last_cpu_times m' = cpu_times_now (host_now e)
     \<and> refresh_interval m' = refresh_interval m
     \<and> is_running m' = (is_running m \<and> \<not> stop_in_collection e \<and> \<not> stop_in_sleep e)
     \<and> out m' = out m
         @ (if is_running m \<and> \<not> stop_in_collection e then [Emit system_data] else [])
         @ (if end_time e - start_time e < refresh_interval m
            then [Sleep (refresh_interval m - (end_time e - start_time e))] else [])"
proof -
  let ?m1 = "m\<lparr>gpu_monitor := map_pids_to_gpus (driver_at_refresh e) (gpu_monitor m)\<rparr>"
  have "length (cpu_times_now (host_now e)) \<le> length (last_cpu_times ?m1)"
    using assms(1) by simp
  from collect_data_ok [OF this assms(2), of "driver_at_listing e"]
  obtain system_data m2 where
    c: "collect_data (host_now e) (driver_at_listing e) ?m1 = Inr (system_data, m2)"
    and m2: "out m2 = out m" "is_running m2 = is_running m"
      "refresh_interval m2 = refresh_interval m" "last_cpu_times m2 = cpu_times_now (host_now e)"
    by auto
  from c m2 show ?thesis
    by (simp add: tick_def tick_snapshot_def stop_def Let_def)
qed

lemma emitted_append: "emitted (xs @ ys) = emitted xs @ emitted ys"
  by (induction xs rule: emitted.induct) simp_all

lemma sleeps_append: "sleeps (xs @ ys) = sleeps xs @ sleeps ys"
  by (induction xs rule: sleeps.induct) simp_all

lemma timeline_append: "timeline (xs @ ys) = timeline xs @ timeline ys"
  by (induction xs rule: timeline.induct) simp_all

text \<open>What one round of a running loop adds to the timeline, and how it leaves the flag.\<close>

lemma tick_timeline_ok:
  assumes "length (cpu_times_now (host_now e)) \<le> length (last_cpu_times m)"
    and "readable (process_iter (host_now e))"
    and "is_running m"
  shows "\<exists>m'. tick e m = Inr m'
     \<and> last_cpu_times m' = cpu_times_now (host_now e)
     \<and> refresh_interval m' = refresh_interval m
     \<and> is_running m' = (\<not> stop_in_collection e \<and> \<not> stop_in_sleep e)
     \<and> timeline (out m') = timeline (out m) @ tick_timeline (refresh_interval m) e"
proof -
  from tick_ok [OF assms(1,2)] obtain system_data m' where
    t: "tick e m = Inr m'" and l: "last_cpu_times m' = cpu_times_now (host_now e)"
    and i: "refresh_interval m' = refresh_interval m"
    and r: "is_running m' = (is_running m \<and> \<not> stop_in_collection e \<and> \<not> stop_in_sleep e)"
    and o: "out m' = out m
         @ (if is_running m \<and> \<not> stop_in_collection e then [Emit system_data] else [])
         @ (if end_time e - start_time e < refresh_interval m
            then [Sleep (refresh_interval m - (end_time e - start_time e))] else [])"
    by blast
  from o assms(3)
  have "timeline (out m') = timeline (out m) @ tick_timeline (refresh_interval m) e"
    by (simp add: timeline_append tick_timeline_def)
  with t l i r assms(3) show ?thesis by simp
qed

text \<open>
  The loop over ticks of which only the last one sees a \<^verbatim>\<open>stop()\<close>: it runs every tick,
  one after the other, and ends after the last.
\<close>

lemma run_loop_timeline:
  assumes "is_running m"
    and "collections_return (length (last_cpu_times m)) (ts @ [t])"
    and "\<forall>x\<in>set ts. \<not> stop_in_collection x \<and> \<not> stop_in_sleep x"
    and "stop_in_collection t \<or> stop_in_sleep t"
  shows "\<exists>m'. run_loop (ts @ [t]) m = Some (Inr m')
     \<and> timeline (out m') = timeline (out m)
         @ concat (map (tick_timeline (refresh_interval m)) (ts @ [t]))"
  using assms(1-3)
proof (induction ts arbitrary: m)
  case Nil
  then have "length (cpu_times_now (host_now t)) \<le> length (last_cpu_times m)"
    and "readable (process_iter (host_now t))"
    by simp_all
  from tick_timeline_ok [OF this Nil.prems(1)] assms(4) obtain m' where
    "tick t m = Inr m'" "\<not> is_running m'"
    "timeline (out m') = timeline (out m) @ tick_timeline (refresh_interval m) t"
    by auto
  with Nil.prems(1) show ?case by simp
next
  case (Cons x ts)
  then have "length (cpu_times_now (host_now x)) \<le> length (last_cpu_times m)"
    and "readable (process_iter (host_now x))"
    and rest: "collections_return (length (cpu_times_now (host_now x))) (ts @ [t])"
    and quiet: "\<not> stop_in_collection x \<and> \<not> stop_in_sleep x"
      "\<forall>y\<in>set ts. \<not> stop_in_collection y \<and> \<not> stop_in_sleep y"
    by simp_all
  from tick_timeline_ok [OF this(1,2) Cons.prems(1)] quiet(1) obtain m1 where
    t: "tick x m = Inr m1" and on: "is_running m1"
    and l: "last_cpu_times m1 = cpu_times_now (host_now x)"
    and i: "refresh_interval m1 = refresh_interval m"
    and o: "timeline (out m1) = timeline (out m) @ tick_timeline (refresh_interval m) x"
    by auto
  from rest l have "collections_return (length (last_cpu_times m1)) (ts @ [t])" by simp
  from Cons.IH [OF on this quiet(2)] obtain m' where
    "run_loop (ts @ [t]) m1 = Some (Inr m')"
    "timeline (out m') = timeline (out m1)
       @ concat (map (tick_timeline (refresh_interval m1)) (ts @ [t]))"
    by blast
  with t o i Cons.prems(1) show ?case by simp
qed

text \<open>
  Claim C9. At the end of a tick the loop sleeps once, for the interval minus the time
  between the two clock readings, when that difference is positive; when the collection
  took the interval or longer it does not sleep, and the tick ends without an error. The
  loop then goes on: in a run of ticks of which only the last sees a \<^verbatim>\<open>stop()\<close>, every
  tick is run and the run ends normally, and its emits and sleeps are, tick after tick,
  the snapshot of the tick followed by the sleep for the rest of the interval, if any is
  left. After a tick that overran, the next snapshot follows with no sleep in between.
\<close>

theorem tick_sleeps_the_remainder:
  "(length (cpu_times_now (host_now e)) \<le> length (last_cpu_times m)
      \<and> readable (process_iter (host_now e)) \<longrightarrow>
      (\<exists>m'. tick e m = Inr m'
         \<and> sleeps (out m') = sleeps (out m)
             @ (if 0 < refresh_interval m - (end_time e - start_time e)
                then [refresh_interval m - (end_time e - start_time e)] else [])
         \<and> refresh_interval m' = refresh_interval m
         \<and> (is_running m \<longrightarrow> run_loop (e # es) m = run_loop es m')))
   \<and> (is_running m
      \<and> collections_return (length (last_cpu_times m)) (ts @ [t])
      \<and> (\<forall>x\<in>set ts. \<not> stop_in_collection x \<and> \<not> stop_in_sleep x)
      \<and> (stop_in_collection t \<or> stop_in_sleep t) \<longrightarrow>
      (\<exists>m'. run_loop (ts @ [t]) m = Some (Inr m')
         \<and> timeline (out m') = timeline (out m)
             @ concat (map (tick_timeline (refresh_interval m)) (ts @ [t]))))"
proof (intro conjI impI)
  assume a: "length (cpu_times_now (host_now e)) \<le> length (last_cpu_times m)
      \<and> readable (process_iter (host_now e))"
  then have "length (cpu_times_now (host_now e)) \<le> length (last_cpu_times m)"
    and "readable (process_iter (host_now e))"
    by simp_all
  from tick_ok [OF this] obtain system_data m' where
    t: "tick e m = Inr m'" and r: "refresh_interval m' = refresh_interval m"
    and o: "out m' = out m
         @ (if is_running m \<and> \<not> stop_in_collection e then [Emit system_data] else [])
         @ (if end_time e - start_time e < refresh_interval m
            then [Sleep (refresh_interval m - (end_time e - start_time e))] else [])"
    by blast
  from o have "sleeps (out m') = sleeps (out m)
         @ (if 0 < refresh_interval m - (end_time e - start_time e)
            then [refresh_interval m - (end_time e - start_time e)] else [])"
    by (simp add: sleeps_append)
  with t r show "\<exists>m'. tick e m = Inr m'
         \<and> sleeps (out m') = sleeps (out m)
             @ (if 0 < refresh_interval m - (end_time e - start_time e)
                then [refresh_interval m - (end_time e - start_time e)] else [])
         \<and> refresh_interval m' = refresh_interval m
         \<and> (is_running m \<longrightarrow> run_loop (e # es) m = run_loop es m')"
    by simp
next
  assume "is_running m
      \<and> collections_return (length (last_cpu_times m)) (ts @ [t])
      \<and> (\<forall>x\<in>set ts. \<not> stop_in_collection x \<and> \<not> stop_in_sleep x)
      \<and> (stop_in_collection t \<or> stop_in_sleep t)"
  then show "\<exists>m'. run_loop (ts @ [t]) m = Some (Inr m')
         \<and> timeline (out m') = timeline (out m)
             @ concat (map (tick_timeline (refresh_interval m)) (ts @ [t]))"
    by (intro run_loop_timeline) simp_all
qed

lemma monitor_at_start_facts:
  "refresh_interval monitor_at_start = 1" "is_running monitor_at_start"
  "out monitor_at_start = []" "last_cpu_times monitor_at_start = cores_before"
  by (simp_all add: monitor_at_start_def system_monitor_init_def)

lemmas tick_examples = tick_slow_def tick_fast_def tick_stopped_def tick_stopped_asleep_def
  host_example_def cores_uneven_def cores_before_def procs_seen_def

lemma example_ticks_in_range:
  "length (cpu_times_now (host_now tick_slow)) \<le> length (last_cpu_times monitor_at_start)"
  "length (cpu_times_now (host_now tick_fast)) \<le> length (last_cpu_times monitor_at_start)"
  "length (cpu_times_now (host_now tick_stopped)) \<le> length (last_cpu_times monitor_at_start)"
  "length (cpu_times_now (host_now tick_stopped_asleep)) \<le> length (last_cpu_times monitor_at_start)"
  by (simp_all add: monitor_at_start_facts tick_examples)

lemma example_ticks_readable:
  "readable (process_iter (host_now tick_slow))"
  "readable (process_iter (host_now tick_fast))"
  "readable (process_iter (host_now tick_stopped))"
  "readable (process_iter (host_now tick_stopped_asleep))"
  by (simp_all add: tick_examples)

lemma example_run_returns:
  "collections_return (length (last_cpu_times monitor_at_start)) ([tick_slow] @ [tick_stopped_asleep])"
  by (simp add: monitor_at_start_facts tick_examples)

lemma example_stops:
  "\<not> stop_in_collection tick_slow" "\<not> stop_in_sleep tick_slow"
  "stop_in_collection tick_stopped" "\<not> stop_in_collection tick_stopped_asleep"
  "stop_in_sleep tick_stopped_asleep"
  by (simp_all add: tick_examples)

theorem tick_sleeps_the_remainder_witness:
  "length (cpu_times_now (host_now tick_slow)) \<le> length (last_cpu_times monitor_at_start)
   \<and> readable (process_iter (host_now tick_slow))
   \<and> is_running monitor_at_start
   \<and> refresh_interval monitor_at_start = 1
   \<and> end_time tick_slow - start_time tick_slow = 1.3
   \<and> sleeps_of (tick tick_slow monitor_at_start) = Some []
   \<and> end_time tick_fast - start_time tick_fast = 0.25
   \<and> sleeps_of (tick tick_fast monitor_at_start) = Some [0.75]
   \<and> collections_return (length (last_cpu_times monitor_at_start))
        ([tick_slow] @ [tick_stopped_asleep])
   \<and> \<not> stop_in_collection tick_slow \<and> \<not> stop_in_sleep tick_slow
   \<and> stop_in_sleep tick_stopped_asleep
   \<and> timeline_of (run_loop ([tick_slow] @ [tick_stopped_asleep]) monitor_at_start)
       = Some [None, None, Some 0.75]"
proof -
  from tick_sleeps_the_remainder [of tick_slow monitor_at_start "[]"]
    example_ticks_in_range(1) example_ticks_readable(1)
  obtain m1 where "tick tick_slow monitor_at_start = Inr m1"
    and "sleeps (out m1) = sleeps (out monitor_at_start)
         @ (if 0 < refresh_interval monitor_at_start - (end_time tick_slow - start_time tick_slow)
            then [refresh_interval monitor_at_start - (end_time tick_slow - start_time tick_slow)]
            else [])"
    by blast
  then have a: "sleeps_of (tick tick_slow monitor_at_start) = Some []"
    by (simp add: sleeps_of_def monitor_at_start_facts tick_slow_def)
  from tick_sleeps_the_remainder [of tick_fast monitor_at_start "[]"]
    example_ticks_in_range(2) example_ticks_readable(2)
  obtain m2 where "tick tick_fast monitor_at_start = Inr m2"
    and "sleeps (out m2) = sleeps (out monitor_at_start)
         @ (if 0 < refresh_interval monitor_at_start - (end_time tick_fast - start_time tick_fast)
            then [refresh_interval monitor_at_start - (end_time tick_fast - start_time tick_fast)]
            else [])"
    by blast
  then have b: "sleeps_of (tick tick_fast monitor_at_start) = Some [0.75]"
    by (simp add: sleeps_of_def monitor_at_start_facts tick_fast_def tick_slow_def)
  have quiet: "\<forall>x\<in>set [tick_slow]. \<not> stop_in_collection x \<and> \<not> stop_in_sleep x"
    by (simp add: example_stops)
  from tick_sleeps_the_remainder
         [where m = monitor_at_start and ts = "[tick_slow]" and t = tick_stopped_asleep]
    monitor_at_start_facts(2) example_run_returns quiet example_stops(5)
  obtain m3 where "run_loop ([tick_slow] @ [tick_stopped_asleep]) monitor_at_start = Some (Inr m3)"
    and "timeline (out m3) = timeline (out monitor_at_start)
           @ concat (map (tick_timeline (refresh_interval monitor_at_start))
                       ([tick_slow] @ [tick_stopped_asleep]))"
    by blast
  then have c: "timeline_of (run_loop ([tick_slow] @ [tick_stopped_asleep]) monitor_at_start)
       = Some [None, None, Some 0.75]"
    by (simp add: timeline_of_def monitor_at_start_facts tick_timeline_def tick_slow_def
        tick_fast_def tick_stopped_asleep_def)
  have d: "end_time tick_slow - start_time tick_slow = 1.3"
    "end_time tick_fast - start_time tick_fast = 0.25"
    by (simp_all add: tick_fast_def tick_slow_def)
  from a b c d example_ticks_in_range(1) example_ticks_readable(1) monitor_at_start_facts
    example_run_returns example_stops
  show ?thesis by simp
qed

text \<open>
  Claim C1, as the code has it. Stop is cooperative: a collection that has started always
  completes. Its snapshot is emitted exactly when the flag is still set at the test after
  the collection, so a tick during whose collection \<^verbatim>\<open>stop()\<close> was called emits nothing;
  the loop then ends at its next test of the flag.
\<close>

theorem snapshot_emitted_unless_stopped:
  assumes "length (cpu_times_now (host_now e)) \<le> length (last_cpu_times m)"
    and "readable (process_iter (host_now e))"
    and "is_running m"
  shows "\<exists>system_data m'. tick_snapshot e m = Some system_data \<and> tick e m = Inr m'
     \<and> last_cpu_times m' = cpu_times_now (host_now e)
     \<and> emitted (out m') = emitted (out m) @ (if stop_in_collection e then [] else [system_data])
     \<and> (stop_in_collection e \<longrightarrow> run_loop (e # es) m = Some (Inr m'))"
proof -
  from tick_ok [OF assms(1,2)] obtain system_data m' where
    s: "tick_snapshot e m = Some system_data" and t: "tick e m = Inr m'"
    and l: "last_cpu_times m' = cpu_times_now (host_now e)"
    and r: "is_running m' = (is_running m \<and> \<not> stop_in_collection e \<and> \<not> stop_in_sleep e)"
    and o: "out m' = out m
         @ (if is_running m \<and> \<not> stop_in_collection e then [Emit system_data] else [])
         @ (if end_time e - start_time e < refresh_interval m
            then [Sleep (refresh_interval m - (end_time e - start_time e))] else [])"
    by blast
  from o assms(3)
  have "emitted (out m') = emitted (out m) @ (if stop_in_collection e then [] else [system_data])"
    by (simp add: emitted_append)
  moreover
  have "run_loop (e # es) m = Some (Inr m')" if "stop_in_collection e"
  proof -
    from r that have "\<not> is_running m'" by simp
    then have "run_loop es m' = Some (Inr m')" by (cases es) simp_all
    with assms(3) t show ?thesis by simp
  qed
  ultimately show ?thesis using s t l by blast
qed

lemma tick_snapshot_out: "tick_snapshot e (m\<lparr>out := x\<rparr>) = tick_snapshot e m"
  by (simp add: tick_snapshot_def collect_data_def calculate_cpu_percent_def Let_def
      split: sum.splits prod.splits)

lemma run_published:
  assumes "run_loop es (m\<lparr>out := out m @ [LogInfo ''System monitor thread started.'']\<rparr>)
             = Some (Inr m')"
  shows "published (run es d m) = Some (emitted (out m'))"
  using assms by (simp add: run_def published_def emitted_append)

theorem snapshot_emitted_unless_stopped_witness:
  "length (cpu_times_now (host_now tick_stopped)) \<le> length (last_cpu_times monitor_at_start)
   \<and> readable (process_iter (host_now tick_stopped))
   \<and> is_running monitor_at_start
   \<and> stop_in_collection tick_stopped
   \<and> tick_snapshot tick_stopped monitor_at_start \<noteq> None
   \<and> map_option (\<lambda>r. isl r) (run_loop [tick_stopped] monitor_at_start) = Some False
   \<and> \<not> stop_in_collection tick_stopped_asleep
   \<and> map_option (\<lambda>r. isl r) (run_loop [tick_stopped_asleep] monitor_at_start) = Some False"
proof -
  from snapshot_emitted_unless_stopped
         [OF example_ticks_in_range(3) example_ticks_readable(3) monitor_at_start_facts(2), of "[]"]
       example_stops(3)
  have a: "tick_snapshot tick_stopped monitor_at_start \<noteq> None"
    "map_option (\<lambda>r. isl r) (run_loop [tick_stopped] monitor_at_start) = Some False"
    by auto
  from tick_ok [OF example_ticks_in_range(4) example_ticks_readable(4)]
    example_stops(4,5) monitor_at_start_facts(2)
  have "map_option (\<lambda>r. isl r) (run_loop [tick_stopped_asleep] monitor_at_start) = Some False"
    by auto
  with a example_stops(3,4) example_ticks_in_range(3) example_ticks_readable(3)
    monitor_at_start_facts(2)
  show ?thesis by simp
qed

text \<open>
  A run of one tick during whose collection \<^verbatim>\<open>stop()\<close> is called: the run ends and has
  published nothing, although the tick did collect a snapshot. The same tick with
  \<^verbatim>\<open>stop()\<close> called during the sleep publishes one snapshot.
\<close>

theorem stopped_tick_publishes_nothing_counterexample:
  "is_running monitor_at_start
   \<and> stop_in_collection tick_stopped
   \<and> tick_snapshot tick_stopped monitor_at_start \<noteq> None
   \<and> published (run [tick_stopped] driver_down monitor_at_start) = Some []
   \<and> published (run [tick_stopped_asleep] driver_down monitor_at_start)
       = Some [the (tick_snapshot tick_stopped_asleep monitor_at_start)]"
proof -
  let ?m = "monitor_at_start\<lparr>out := out monitor_at_start @ [LogInfo ''System monitor thread started.'']\<rparr>"
  have m: "is_running ?m" "emitted (out ?m) = []"
    by (simp_all add: monitor_at_start_facts)
  have "length (cpu_times_now (host_now tick_stopped)) \<le> length (last_cpu_times ?m)"
    using example_ticks_in_range(3) by simp
  from tick_ok [OF this example_ticks_readable(3)] example_stops(3) m obtain m1 where
    "tick tick_stopped ?m = Inr m1" "\<not> is_running m1" "emitted (out m1) = []"
    by (auto simp: emitted_append)
  then have "run_loop [tick_stopped] ?m = Some (Inr m1)" "emitted (out m1) = []"
    using m(1) by simp_all
  then have a: "published (run [tick_stopped] driver_down monitor_at_start) = Some []"
    by (simp add: run_published)
  have "length (cpu_times_now (host_now tick_stopped_asleep)) \<le> length (last_cpu_times ?m)"
    using example_ticks_in_range(4) by simp
  from tick_ok [OF this example_ticks_readable(4)] example_stops(4,5) m
  obtain system_data m2 where
    "tick_snapshot tick_stopped_asleep ?m = Some system_data"
    "tick tick_stopped_asleep ?m = Inr m2" "\<not> is_running m2" "emitted (out m2) = [system_data]"
    by (auto simp: emitted_append)
  then have "run_loop [tick_stopped_asleep] ?m = Some (Inr m2)"
    "emitted (out m2) = [the (tick_snapshot tick_stopped_asleep monitor_at_start)]"
    using m(1) by (simp_all add: tick_snapshot_out)
  then have b: "published (run [tick_stopped_asleep] driver_down monitor_at_start)
       = Some [the (tick_snapshot tick_stopped_asleep monitor_at_start)]"
    by (simp add: run_published)
  from tick_ok [OF example_ticks_in_range(3) example_ticks_readable(3)]
  have "tick_snapshot tick_stopped monitor_at_start \<noteq> None" by auto
  with a b example_stops(3) monitor_at_start_facts(2) show ?thesis by simp
qed

text \<open>
  Claim C10. The claim: the memory percentage of every process is 0 when its resident
  memory is 0 and the total RAM is positive, and 0 when the total RAM is 0, and the
  computation never raises. The division keeps it: for the processes that psutil could
  read the loop returns the percentages 25 and 0 with 16 KiB of RAM, and 0 and 0 with no
  RAM. The code breaks it for a process whose \<^verbatim>\<open>memory_info\<close> psutil stored as \<^verbatim>\<open>None\<close>:
  the read of \<^verbatim>\<open>.rss\<close> raises \<^verbatim>\<open>AttributeError\<close>, which the \<^verbatim>\<open>except\<close> clause does not
  catch, with any total RAM, so the loop, the tick and the whole run end with that
  exception.
\<close>

theorem denied_process_raises:
  "memory_percents (collect_processes ram_some (gpu_monitor_init False driver_down) procs_seen [])
     = Some [25, 0]
   \<and> memory_percents (collect_processes ram_none (gpu_monitor_init False driver_down) procs_seen [])
     = Some [0, 0]
   \<and> memory_percent_of (vm_total ram_some) pinfo_denied = Inl AttributeError
   \<and> process_record ram_none (gpu_monitor_init False driver_down) pinfo_denied = Inl AttributeError
   \<and> collect_processes ram_some (gpu_monitor_init False driver_down)
        (procs_seen @ [Inr pinfo_denied]) [] = Inl AttributeError
   \<and> collect_processes ram_none (gpu_monitor_init False driver_down)
        (procs_seen @ [Inr pinfo_denied]) [] = Inl AttributeError
   \<and> run [tick_denied] driver_two_gpus monitor_at_start = Some (Inl AttributeError)"
proof -
  have "run [tick_denied] driver_two_gpus monitor_at_start = Some (Inl AttributeError)"
    by (simp add: run_def tick_def collect_data_def calculate_cpu_percent_def cpu_percent_value
        monitor_at_start_def system_monitor_init_def tick_denied_def tick_examples
        proc_defs Let_def)
  then show ?thesis by (simp add: proc_defs)
qed

end
